theory Spec2Isabelle
  imports Complex_Main
begin

section \<open>Erosion and sediment transport (erosion.cpp)\<close>

text \<open>
  The C++ type \<open>double\<close> is modelled by \<^typ>\<open>real\<close>: rounding, infinities and NaN are
  not represented. Every statement below is therefore a statement about the exact
  arithmetic the code writes down.
\<close>

subsection \<open>Numbers and errors\<close>

text \<open>
  \<open>pow\<close> of \<open>math.h\<close>, where its value is a real number: \<open>pow(x, 0) = 1\<close> for every \<open>x\<close>
  (also \<open>x = 0\<close>), \<open>pow(0, y) = 0\<close> for \<open>y > 0\<close>, \<open>x\<close> to the power \<open>y\<close> for \<open>x > 0\<close>, and for
  \<open>x < 0\<close> and an integer \<open>y\<close> the integer power of \<open>x\<close>, with its sign. A negative base
  with a fractional exponent gives NaN in C, and \<open>pow(0, y)\<close> with \<open>y < 0\<close> gives infinity:
  these two cases have no counterpart here, and \<open>pow_real x y\<close> says that \<open>x\<close> and \<open>y\<close> are
  outside them. Likewise a division by zero is infinite or NaN in C. The statements
  below that depend on the value of such an expression keep it among the real numbers
  by their hypotheses: \<open>pow_real\<close> of the arguments, or arguments that are not
  negative, and a divisor other than zero.
\<close>

definition pow :: "real \<Rightarrow> real \<Rightarrow> real" where
  "pow x y = (if y = of_int \<lfloor>y\<rfloor> then x powi \<lfloor>y\<rfloor> else x powr y)"

definition pow_real :: "real \<Rightarrow> real \<Rightarrow> bool" where
  "pow_real x y = (0 < x \<or> (x = 0 \<and> 0 \<le> y) \<or> (x < 0 \<and> y = of_int \<lfloor>y\<rfloor>))"

text \<open>
  \<open>ReportFatalError\<close> prints a message and ends the run; a failed \<open>assert\<close> aborts;
  dereferencing a null pointer crashes. All three are results of the model.
\<close>

datatype error = FatalError | AssertionFailed | NullPointer

subsection \<open>Nodes and layers\<close>

text \<open>
  Modelled from the spec: class \<open>tLNode\<close> and its layer list are not among the sources.
  A node carries the attributes of the spec's data model, named after the accessors the
  code calls. The downstream neighbour is an index into the node list of the mesh.
\<close>

record tLayer =
  getDepth :: real
  getErody :: real
  getSed :: int
  getDgrade :: "real list"
  getRtime :: real

datatype tBoundary = kNonBoundary | kClosedBoundary | kOpenBoundary

record tLNode =
  getZ :: real
  getVArea :: real
  getQ :: real
  getDrArea :: real
  getSlope :: real
  getHydrWidth :: real
  getHydrRough :: real
  getChanDepth :: real
  getFloodStatus :: bool
  getBoundaryFlag :: tBoundary
  getDownstrmNbr :: nat
  getTau :: real
  getTauCrit :: real
  getDzDt :: real
  getDrDt :: real
  getQs :: real
  getQsin :: real
  getQsm :: "real list"
  getQsinm :: "real list"
  getNumg :: nat
  getMaxregdep :: real
  layers :: "tLayer list"

definition getLayerDepth :: "tLNode \<Rightarrow> nat \<Rightarrow> real" where
  "getLayerDepth n i = getDepth (layers n ! i)"

definition getLayerErody :: "tLNode \<Rightarrow> nat \<Rightarrow> real" where
  "getLayerErody n i = getErody (layers n ! i)"

definition getLayerDgrade :: "tLNode \<Rightarrow> nat \<Rightarrow> nat \<Rightarrow> real" where
  "getLayerDgrade n i j = getDgrade (layers n ! i) ! j"


definition getNumLayer :: "tLNode \<Rightarrow> nat" where
  "getNumLayer n = length (layers n)"

text \<open>
  The setters. \<open>setQs(i, v)\<close> and \<open>setQsin(i, v)\<close> write one grain-size entry. The
  comments of the callers say that setting a per-size influx sets the total influx to the
  sum of the per-size entries (\<open>DetachErode\<close>), that \<open>qsin\<close> stores the total of the
  per-size influxes (\<open>StreamErodeMulti\<close>), which is how the per-size \<open>addQsin(i, v)\<close> is
  modelled, and that \<open>addQs(i, v)\<close> updates the total as well (\<open>TransCapacity\<close> of
  \<open>tSedTransWilcock\<close>).
\<close>

definition setTau :: "real \<Rightarrow> tLNode \<Rightarrow> tLNode" where
  "setTau v n = n\<lparr>getTau := v\<rparr>"

definition setDrDt :: "real \<Rightarrow> tLNode \<Rightarrow> tLNode" where
  "setDrDt v n = n\<lparr>getDrDt := v\<rparr>"

definition setDzDt :: "real \<Rightarrow> tLNode \<Rightarrow> tLNode" where
  "setDzDt v n = n\<lparr>getDzDt := v\<rparr>"

definition setQs :: "real \<Rightarrow> tLNode \<Rightarrow> tLNode" where
  "setQs v n = n\<lparr>getQs := v\<rparr>"

definition setQsi :: "nat \<Rightarrow> real \<Rightarrow> tLNode \<Rightarrow> tLNode" where
  "setQsi i v n = n\<lparr>getQsm := (getQsm n)[i := v]\<rparr>"

definition addQsi :: "nat \<Rightarrow> real \<Rightarrow> tLNode \<Rightarrow> tLNode" where
  "addQsi i v n = n\<lparr>getQsm := (getQsm n)[i := getQsm n ! i + v], getQs := getQs n + v\<rparr>"

definition setQsin :: "real \<Rightarrow> tLNode \<Rightarrow> tLNode" where
  "setQsin v n = n\<lparr>getQsin := v\<rparr>"

definition addQsin :: "real \<Rightarrow> tLNode \<Rightarrow> tLNode" where
  "addQsin v n = n\<lparr>getQsin := getQsin n + v\<rparr>"

definition setQsini :: "nat \<Rightarrow> real \<Rightarrow> tLNode \<Rightarrow> tLNode" where
  "setQsini i v n =
     (let m = (getQsinm n)[i := v] in n\<lparr>getQsinm := m, getQsin := sum_list m\<rparr>)"

definition addQsini :: "nat \<Rightarrow> real \<Rightarrow> tLNode \<Rightarrow> tLNode" where
  "addQsini i v n =
     (let m = (getQsinm n)[i := getQsinm n ! i + v] in n\<lparr>getQsinm := m, getQsin := sum_list m\<rparr>)"

text \<open>
  Constants of the headers (\<open>RHO\<close>, \<open>RHOSED\<close>, \<open>GRAV\<close>, \<open>SECPERYEAR\<close>) are not among the
  sources; they are parameters of everything that uses them. \<open>YEARPERSEC\<close> is defined
  in erosion.cpp.
\<close>

record tConstants =
  RHO :: real
  RHOSED :: real
  GRAV :: real
  SECPERYEAR :: real

definition YEARPERSEC :: real where
  "YEARPERSEC = 3.171 / 10 ^ 8"

subsection \<open>tBedErodePwrLaw\<close>

record tBedErodePwrLaw =
  kb :: real
  kt :: real
  mb :: real
  nb :: real
  pb :: real
  taucd :: real

text \<open>DetachCapacity (1 of 3): the depth of erosion over the interval \<open>dt\<close>.\<close>

definition DetachCapacity_dt ::
  "tBedErodePwrLaw \<Rightarrow> tLNode \<Rightarrow> real \<Rightarrow> error + (real \<times> tLNode)" where
  "DetachCapacity_dt b n dt =
     (let slp = getSlope n in
      if getFloodStatus n then Inr (0, n)
      else if slp < 0 then Inl FatalError
      else
        let tau = kt b * pow (getQ n / getHydrWidth n) (mb b) * pow slp (nb b);
            n = setTau tau n;
            tauex = tau - getTauCrit n;
            tauex = (if tauex > 0 then tauex else 0)
        in Inr (getLayerErody n 0 * pow tauex (pb b) * dt, n))"

text \<open>
  DetachCapacity (2 of 3): the rate of erosion. The discharge is asserted non-negative on
  entry, and again, with the drainage area, before the shear stress is stored.
\<close>

definition DetachCapacity ::
  "tBedErodePwrLaw \<Rightarrow> tLNode \<Rightarrow> error + (real \<times> tLNode)" where
  "DetachCapacity b n =
     (if \<not> getQ n \<ge> 0 then Inl AssertionFailed
      else if getFloodStatus n then Inr (0, n)
      else
        let slp = getSlope n in
        if slp < 0 then Inl FatalError
        else
          let tau = kt b * pow (getQ n / getHydrWidth n) (mb b) * pow slp (nb b) in
          if \<not> getQ n \<ge> 0 then Inl AssertionFailed
          else if \<not> getDrArea n \<ge> 0 then Inl AssertionFailed
          else
            let n = setTau tau n;
                erorate = tau - getTauCrit n;
                erorate = (if erorate > 0 then erorate else 0);
                erorate = getLayerErody n 0 * pow erorate (pb b);
                n = setDrDt (- erorate) n
            in Inr (erorate, n))"

text \<open>DetachCapacity (3 of 3): the rate of erosion, with the erodibility of layer \<open>i\<close>.\<close>

definition DetachCapacity_lyr ::
  "tBedErodePwrLaw \<Rightarrow> tLNode \<Rightarrow> nat \<Rightarrow> error + (real \<times> tLNode)" where
  "DetachCapacity_lyr b n i =
     (if getFloodStatus n then Inr (0, n)
      else
        let slp = getSlope n in
        if slp < 0 then Inl FatalError
        else
          let tau = kt b * pow (getQ n / getHydrWidth n) (mb b) * pow slp (nb b);
              n = setTau tau n;
              erorate = tau - getTauCrit n;
              erorate = (if erorate > 0 then erorate else 0);
              erorate = getLayerErody n i * pow erorate (pb b);
              n = setDrDt (- erorate) n
          in Inr (erorate, n))"

subsection \<open>tSedTransPwrLaw\<close>

record tSedTransPwrLaw =
  kf :: real
  kt_f :: real
  mf :: real
  nf :: real
  pf :: real
  tauc :: real

definition tSedTransPwrLaw_TransCapacity ::
  "tSedTransPwrLaw \<Rightarrow> tLNode \<Rightarrow> error + (real \<times> tLNode)" where
  "tSedTransPwrLaw_TransCapacity p node =
     (let slp = getSlope node in
      if slp < 0 then Inl FatalError
      else
        let (cap, node) =
              (if \<not> getFloodStatus node then
                 let tau = kt_f p * pow (getQ node / getHydrWidth node) (mf p) * pow slp (nf p);
                     node = setTau tau node;
                     tauex = tau - tauc p;
                     tauex = (if tauex > 0 then tauex else 0)
                 in (kf p * getHydrWidth node * pow tauex (pf p), node)
               else (0, node))
        in Inr (cap, setQs cap node))"

definition tSedTransPwrLaw_TransCapacity_lyr ::
  "tSedTransPwrLaw \<Rightarrow> tLNode \<Rightarrow> nat \<Rightarrow> real \<Rightarrow> error + (real \<times> tLNode)" where
  "tSedTransPwrLaw_TransCapacity_lyr p node lyr weight =
     (let slp = getSlope node in
      if slp < 0 then Inl FatalError
      else
        let (cap, node) =
              (if \<not> getFloodStatus node then
                 let tau = kt_f p * pow (getQ node / getHydrWidth node) (mf p) * pow slp (nf p);
                     node = setTau tau node;
                     tauex = tau - tauc p;
                     tauex = (if tauex > 0 then tauex else 0)
                 in (weight * kf p * getHydrWidth node * pow tauex (pf p), node)
               else (0, node));
            node = fold (\<lambda>i nd. addQsi i
                        (cap * getLayerDgrade nd lyr i / getLayerDepth nd lyr) nd)
                     [0 ..< getNumg node] node
        in Inr (cap, setQs cap node))"

subsection \<open>tSedTransPwrLawMulti\<close>

record tSedTransPwrLawMulti =
  kf_m :: real
  kt_m :: real
  mf_m :: real
  nf_m :: real
  pf_m :: real
  miNumgrnsizes :: nat
  mdGrndiam :: "real list"
  mdTauc :: "real list"
  mdHidingexp :: real

text \<open>The loop over the size fractions: capacity of each, added to the node and summed.\<close>

fun multi_caps ::
  "tSedTransPwrLawMulti \<Rightarrow> real list \<Rightarrow> real \<Rightarrow> real \<Rightarrow> real \<Rightarrow> nat list \<Rightarrow> real \<Rightarrow> tLNode
     \<Rightarrow> real \<times> tLNode" where
  "multi_caps p fracs d50 tau weight [] totalcap node = (totalcap, node)"
| "multi_caps p fracs d50 tau weight (i # rest) totalcap node =
     (let tauc = mdTauc p ! i * pow (mdGrndiam p ! i / d50) (- mdHidingexp p);
          tauex = tau - tauc;
          tauex = (if tauex > 0 then tauex else 0);
          cap = fracs ! i * weight * kf_m p * getHydrWidth node * pow tauex (pf_m p)
      in multi_caps p fracs d50 tau weight rest (totalcap + cap) (addQsi i cap node))"

definition tSedTransPwrLawMulti_TransCapacity_lyr ::
  "tSedTransPwrLawMulti \<Rightarrow> tLNode \<Rightarrow> nat \<Rightarrow> real \<Rightarrow> error + (real \<times> tLNode)" where
  "tSedTransPwrLawMulti_TransCapacity_lyr p node lyr weight =
     (let slp = getSlope node in
      if slp < 0 then Inl FatalError
      else
        let fracs = map (\<lambda>i. getLayerDgrade node lyr i / getLayerDepth node lyr)
                     [0 ..< miNumgrnsizes p];
            d50 = (\<Sum>i \<leftarrow> [0 ..< miNumgrnsizes p]. fracs ! i * mdGrndiam p ! i);
            slp = (if getFloodStatus node then 0 else slp);
            tau = kt_m p * pow (getQ node / getHydrWidth node) (mf_m p) * pow slp (nf_m p);
            node = setTau tau node;
            (totalcap, node) = multi_caps p fracs d50 tau weight [0 ..< miNumgrnsizes p] 0 node
        in Inr (totalcap, setQs totalcap node))"

definition tSedTransPwrLawMulti_TransCapacity ::
  "tSedTransPwrLawMulti \<Rightarrow> tLNode \<Rightarrow> error + (real \<times> tLNode)" where
  "tSedTransPwrLawMulti_TransCapacity p node = Inr (0, node)"

subsection \<open>tSedTransWilcock and tSedTransMineTailings\<close>

record tSedTransWilcock =
  taudim :: real
  refs :: real
  refg :: real
  lowtaucs :: real
  lowtaucg :: real
  sands :: real
  sandb :: real
  hightaucs :: real
  hightaucg :: real
  gravs :: real
  gravb :: real
  grade :: "real list"

text \<open>
  The constructors; \<open>g0\<close> and \<open>g1\<close> are the items \<open>GRAINDIAM1\<close> and \<open>GRAINDIAM2\<close> read
  from the input file. The two classes compute the same members.
\<close>

definition tSedTransWilcock_ctor :: "tConstants \<Rightarrow> real \<Rightarrow> real \<Rightarrow> tSedTransWilcock" where
  "tSedTransWilcock_ctor k g0 g1 =
     (let grade = [g0, g1];
          taudim = RHO k * GRAV k;
          refs = (RHOSED k - RHO k) * 9.81 * grade ! 0;
          refg = (RHOSED k - RHO k) * 9.81 * grade ! 1;
          lowtaucs = 0.8 * (grade ! 1 / grade ! 0) * 0.040 * refs * 0.8531;
          lowtaucg = 0.04 * refg * 0.8531;
          hightaucs = 0.04 * refs * 0.8531;
          hightaucg = 0.01 * refg * 0.8531;
          sands = (lowtaucs - hightaucs) / (- 0.3);
          sandb = lowtaucs - (sands * 0.1);
          gravs = (lowtaucg - hightaucg) / (- 0.3);
          gravb = lowtaucg - (gravs * 0.1)
      in \<lparr>taudim = taudim, refs = refs, refg = refg, lowtaucs = lowtaucs,
          lowtaucg = lowtaucg, sands = sands, sandb = sandb, hightaucs = hightaucs,
          hightaucg = hightaucg, gravs = gravs, gravb = gravb, grade = grade\<rparr>)"

definition tSedTransMineTailings_ctor :: "tConstants \<Rightarrow> real \<Rightarrow> real \<Rightarrow> tSedTransWilcock" where
  "tSedTransMineTailings_ctor k g0 g1 =
     (let grade = [g0, g1];
          taudim = RHO k * GRAV k;
          refs = (RHOSED k - RHO k) * 9.81 * grade ! 0;
          refg = (RHOSED k - RHO k) * 9.81 * grade ! 1;
          lowtaucs = 0.8 * (grade ! 1 / grade ! 0) * 0.040 * refs * 0.8531;
          lowtaucg = 0.04 * refg * 0.8531;
          hightaucs = 0.04 * refs * 0.8531;
          hightaucg = 0.01 * refg * 0.8531;
          sands = (lowtaucs - hightaucs) / (- 0.3);
          sandb = lowtaucs - (sands * 0.1);
          gravs = (lowtaucg - hightaucg) / (- 0.3);
          gravb = lowtaucg - (gravs * 0.1)
      in \<lparr>taudim = taudim, refs = refs, refg = refg, lowtaucs = lowtaucs,
          lowtaucg = lowtaucg, sands = sands, sandb = sandb, hightaucs = hightaucs,
          hightaucg = hightaucg, gravs = gravs, gravb = gravb, grade = grade\<rparr>)"

text \<open>
  The critical shear stress of the sand and of the gravel fraction: the three-way
  branch on \<open>persand\<close> that each of the four \<open>TransCapacity\<close> bodies repeats.
\<close>

definition taucrit_sand :: "tSedTransWilcock \<Rightarrow> real \<Rightarrow> real" where
  "taucrit_sand w persand =
     (if persand < 0.10 then lowtaucs w
      else if persand \<le> 0.40 then (sands w * persand) + sandb w
      else hightaucs w)"

definition taucrit_grav :: "tSedTransWilcock \<Rightarrow> real \<Rightarrow> real" where
  "taucrit_grav w persand =
     (if persand < 0.10 then lowtaucg w
      else if persand \<le> 0.40 then (gravs w * persand) + gravb w
      else hightaucg w)"

text \<open>\<open>tSedTransWilcock::TransCapacity(tLNode*)\<close>.\<close>

definition tSedTransWilcock_TransCapacity ::
  "tConstants \<Rightarrow> tSedTransWilcock \<Rightarrow> tLNode \<Rightarrow> error + (real \<times> tLNode)" where
  "tSedTransWilcock_TransCapacity k w nd =
     (let persand = getLayerDgrade nd 0 0 / getLayerDepth nd 0;
          factor = getLayerDepth nd 0 / getMaxregdep nd
      in
      if getSlope nd < 0 then
        let nd = setQsi 0 0 nd; nd = setQsi 1 0 nd; nd = setQs 0 nd in Inr (0, nd)
      else
        let tau = taudim w
                    * pow (getHydrRough nd * getQ nd * YEARPERSEC / getHydrWidth nd) 0.6
                    * pow (getSlope nd) 0.7;
            taucrit = taucrit_sand w persand;
            nd = (if tau > taucrit then
                    setQsi 0 ((0.058 / RHOSED k) * factor * getHydrWidth nd * SECPERYEAR k
                              * persand * pow tau 1.5 * pow (1 - sqrt (taucrit / tau)) 4.5) nd
                  else setQsi 0 0 nd);
            taucrit = taucrit_grav w persand;
            nd = (if tau > taucrit then
                    setQsi 1 ((0.058 * SECPERYEAR k * factor * getHydrWidth nd / RHOSED k)
                              * (1 - persand) * pow tau 1.5 * pow (1 - (taucrit / tau)) 4.5) nd
                  else setQsi 1 0 nd);
            nd = setQs (getQsm nd ! 0 + getQsm nd ! 1) nd
        in Inr (getQs nd, nd))"

text \<open>\<open>tSedTransWilcock::TransCapacity(tLNode*, int, double)\<close>.\<close>

definition tSedTransWilcock_TransCapacity_lyr ::
  "tConstants \<Rightarrow> tSedTransWilcock \<Rightarrow> tLNode \<Rightarrow> nat \<Rightarrow> real
     \<Rightarrow> error + (real \<times> tLNode)" where
  "tSedTransWilcock_TransCapacity_lyr k w nd i weight =
     (if \<not> getLayerDepth nd i > 0 then Inl AssertionFailed
      else
        let persand = getLayerDgrade nd i 0 / getLayerDepth nd i in
        if getSlope nd < 0 then
          let nd = setQsi 0 0 nd;
              nd = (if getNumg nd = 2 then setQsi 1 0 nd else nd);
              nd = setQs 0 nd
          in Inr (0, nd)
        else
          let tau = taudim w * pow 0.03 0.6 * pow (getQ nd / SECPERYEAR k) 0.3
                      * pow (getSlope nd) 0.7;
              taucrit = taucrit_sand w persand;
              (qss, nd) =
                (if tau > taucrit then
                   let qss = (0.058 / RHOSED k) * weight * getHydrWidth nd * SECPERYEAR k
                               * persand * pow tau 1.5 * pow (1 - sqrt (taucrit / tau)) 4.5
                   in (qss, addQsi 0 qss nd)
                 else (0, nd));
              (qsg, nd) =
                (if getNumg nd = 2 then
                   let taucrit = taucrit_grav w persand in
                   if tau > taucrit then
                     let qsg = (0.058 * SECPERYEAR k * weight * getHydrWidth nd / RHOSED k)
                                 * (1 - persand) * pow tau 1.5 * pow (1 - (taucrit / tau)) 4.5
                     in (qsg, addQsi 1 qsg nd)
                   else (0, nd)
                 else (0, nd))
          in Inr (qsg + qss, nd))"

text \<open>\<open>tSedTransMineTailings::TransCapacity(tLNode*)\<close>.\<close>

definition tSedTransMineTailings_TransCapacity ::
  "tConstants \<Rightarrow> tSedTransWilcock \<Rightarrow> tLNode \<Rightarrow> error + (real \<times> tLNode)" where
  "tSedTransMineTailings_TransCapacity k w nd =
     (let persand = getLayerDgrade nd 0 0 / getLayerDepth nd 0 in
      if getSlope nd < 0 then
        let nd = setQsi 0 0 nd; nd = setQsi 1 0 nd; nd = setQs 0 nd in Inr (0, nd)
      else
        let tau = taudim w * pow 0.03 0.6 * pow (getQ nd / SECPERYEAR k) 0.3
                    * pow (getSlope nd) 0.7;
            taucrit = taucrit_sand w persand;
            nd = (if tau > taucrit then
                    setQsi 0 ((0.0541 / RHOSED k) * SECPERYEAR k * persand
                              * pow (getQ nd / SECPERYEAR k) 1.12 * pow (getSlope nd) (- 0.24)
                              * (tau - taucrit)) nd
                  else setQsi 0 0 nd);
            taucrit = taucrit_grav w persand;
            nd = (if tau > taucrit then
                    setQsi 1 ((0.0541 / RHOSED k) * SECPERYEAR k * (1 - persand)
                              * pow (getQ nd / SECPERYEAR k) 1.12 * pow (getSlope nd) (- 0.24)
                              * (tau - taucrit)) nd
                  else setQsi 1 0 nd);
            nd = setQs (getQsm nd ! 0 + getQsm nd ! 1) nd
        in Inr (getQs nd, nd))"

text \<open>\<open>tSedTransMineTailings::TransCapacity(tLNode*, int, double)\<close>.\<close>

definition tSedTransMineTailings_TransCapacity_lyr ::
  "tConstants \<Rightarrow> tSedTransWilcock \<Rightarrow> tLNode \<Rightarrow> nat \<Rightarrow> real
     \<Rightarrow> error + (real \<times> tLNode)" where
  "tSedTransMineTailings_TransCapacity_lyr k w nd i weight =
     (if \<not> getLayerDepth nd i > 0 then Inl AssertionFailed
      else
        let persand = getLayerDgrade nd i 0 / getLayerDepth nd i in
        if getSlope nd < 0 then
          let nd = setQsi 0 0 nd;
              nd = (if getNumg nd = 2 then setQsi 1 0 nd else nd);
              nd = setQs 0 nd
          in Inr (0, nd)
        else
          let tau = taudim w * pow 0.03 0.6 * pow (getQ nd / SECPERYEAR k) 0.3
                      * pow (getSlope nd) 0.7;
              taucrit = taucrit_sand w persand;
              (qss, nd) =
                (if tau > taucrit then
                   let qss = (0.0541 / RHOSED k) * weight * SECPERYEAR k * persand
                               * pow (getQ nd / SECPERYEAR k) 1.12
                               * pow (getSlope nd) (- 0.24) * (tau - taucrit)
                   in (qss, addQsi 0 qss nd)
                 else (0, nd));
              (qsg, nd) =
                (if getNumg nd = 2 then
                   let taucrit = taucrit_grav w persand in
                   if tau > taucrit then
                     let qsg = (0.0541 / RHOSED k) * weight * SECPERYEAR k * (1 - persand)
                                 * pow (getQ nd / SECPERYEAR k) 1.12
                                 * pow (getSlope nd) (- 0.24) * (tau - taucrit)
                     in (qsg, addQsi 1 qsg nd)
                   else (0, nd)
                 else (0, nd))
          in Inr (qsg + qss, nd))"

subsection \<open>Example data\<close>

text \<open>A node, a mesh and law parameters on which the definitions are evaluated.\<close>

definition node_ex :: tLNode where
  "node_ex =
     \<lparr>getZ = 10, getVArea = 1, getQ = 2, getDrArea = 1, getSlope = 1, getHydrWidth = 1,
      getHydrRough = 1, getChanDepth = 1, getFloodStatus = False,
      getBoundaryFlag = kNonBoundary, getDownstrmNbr = 1, getTau = 0, getTauCrit = 1/2,
      getDzDt = 0, getDrDt = 0, getQs = 0, getQsin = 0, getQsm = [0, 0], getQsinm = [0, 0],
      getNumg = 2, getMaxregdep = 1,
      layers = [\<lparr>getDepth = 10, getErody = 3, getSed = 1, getDgrade = [5, 5], getRtime = 0\<rparr>]\<rparr>"

definition bed_ex :: tBedErodePwrLaw where
  "bed_ex = \<lparr>kb = 1, kt = 1, mb = 1, nb = 1, pb = 1, taucd = 0\<rparr>"

definition k_ex :: tConstants where
  "k_ex = \<lparr>RHO = 1000, RHOSED = 2650, GRAV = 9.81, SECPERYEAR = 31536000\<rparr>"

definition multi_ex :: tSedTransPwrLawMulti where
  "multi_ex = \<lparr>kf_m = 1, kt_m = 1, mf_m = 1, nf_m = 1, pf_m = 1, miNumgrnsizes = 2,
      mdGrndiam = [1, 2], mdTauc = [1, 3], mdHidingexp = 0\<rparr>"

subsection \<open>The mesh\<close>

text \<open>
  Modelled from the spec: the mesh classes are not among the sources. The node list
  holds the active nodes first (\<open>getActiveSize\<close> of them), then the boundary nodes; the
  loops \<open>for( cn = ni.FirstP(); ni.IsActive(); cn = ni.NextP() )\<close> visit the active part
  in list order. Edges name their end points by index into the node list.
\<close>

record tEdge =
  getOriginPtr :: nat
  getDestinationPtr :: nat
  getLength :: real
  getVEdgLen :: real

record tMesh =
  getNodeList :: "tLNode list"
  getActiveSize :: nat
  getEdgeList :: "tEdge list"
  getActiveEdgeSize :: nat

subsection \<open>tEquilibCheck\<close>

text \<open>An entry of \<open>massList\<close> is the pair \<open>(tmp[0], tmp[1])\<close>: time and mean elevation.\<close>

record tEquilibCheck =
  massList :: "(real \<times> real) list"
  longTime :: real
  longRate :: real
  shortRate :: real

definition setLongTime :: "real \<Rightarrow> tEquilibCheck \<Rightarrow> tEquilibCheck" where
  "setLongTime val e = e\<lparr>longTime := (if val > 0 then val else 0)\<rparr>"

text \<open>\<open>now\<close> is \<open>timePtr->getCurrentTime()\<close>.\<close>

definition FindIterChngRate ::
  "tEquilibCheck \<Rightarrow> real \<Rightarrow> tMesh \<Rightarrow> error + (real \<times> tEquilibCheck)" where
  "FindIterChngRate e now mesh =
     (let tmp0 = now;
          act = take (getActiveSize mesh) (getNodeList mesh);
          mass = fold (\<lambda>cn m. m + getZ cn * getVArea cn) act 0;
          area = fold (\<lambda>cn a. a + getVArea cn) act 0;
          tmp1 = mass / area
      in
      if massList e \<noteq> [] then
        let lst = last (massList e);
            dt = tmp0 - fst lst
        in
        if \<not> dt > 0 then Inl AssertionFailed
        else
          let sr = (tmp1 - snd lst) / dt
          in Inr (sr, e\<lparr>shortRate := sr, massList := massList e @ [(tmp0, tmp1)]\<rparr>)
      else if \<not> tmp0 > 0 then Inl AssertionFailed
      else
        let sr = tmp1 / tmp0
        in Inr (sr, e\<lparr>shortRate := sr, massList := massList e @ [(tmp0, tmp1)]\<rparr>))"

text \<open>
  The scan \<open>while( na[0] < targetTime && !(mI.AtEnd()) ) { ca = na; na = *(mI.NextP()); }\<close>
  with the iterator on \<open>na\<close> and \<open>rest\<close> the entries after it. The list iterator is not
  among the sources; stepping past the last entry is taken to dereference a null
  pointer. That case needs an entry of the last time below the target, that is a
  negative \<open>longTime\<close>, and no statement below depends on it.
\<close>

fun scan_massList ::
  "real \<Rightarrow> real \<times> real \<Rightarrow> real \<times> real \<Rightarrow> (real \<times> real) list \<Rightarrow> error + (real \<times> real)" where
  "scan_massList targetTime ca na [] =
     (if fst na < targetTime then Inl NullPointer else Inr ca)"
| "scan_massList targetTime ca na (x # rest) =
     (if fst na < targetTime then scan_massList targetTime na x rest else Inr ca)"

definition FindLongTermChngRate ::
  "tEquilibCheck \<Rightarrow> real \<Rightarrow> tMesh \<Rightarrow> error + (real \<times> tEquilibCheck)" where
  "FindLongTermChngRate e now mesh =
     (case FindIterChngRate e now mesh of
        Inl err \<Rightarrow> Inl err
      | Inr (_, e) \<Rightarrow>
          let lst = last (massList e);
              targetTime = fst lst - longTime e
          in
          if longTime e = 0 \<or> length (massList e) \<le> 1 then
            Inr (shortRate e, e\<lparr>longRate := shortRate e\<rparr>)
          else
            (case massList e of
               ca # na # rest \<Rightarrow>
                 (case scan_massList targetTime ca na rest of
                    Inl err \<Rightarrow> Inl err
                  | Inr ca \<Rightarrow>
                      let dt = fst lst - fst ca in
                      if \<not> dt > 0 then Inl AssertionFailed
                      else
                        let lr = (snd lst - snd ca) / dt
                        in Inr (lr, e\<lparr>longRate := lr\<rparr>))
             | _ \<Rightarrow> Inr (shortRate e, e\<lparr>longRate := shortRate e\<rparr>)))"

definition FindLongTermChngRate_newtime ::
  "tEquilibCheck \<Rightarrow> real \<Rightarrow> real \<Rightarrow> tMesh \<Rightarrow> error + (real \<times> tEquilibCheck)" where
  "FindLongTermChngRate_newtime e newtime now mesh =
     FindLongTermChngRate (setLongTime newtime e) now mesh"

text \<open>
  The long-term rate in the words of the specification, for comparison: the rate between
  the latest entry and the earliest entry whose time is at least the latest time minus
  \<open>longTime\<close>.
\<close>

definition spec_longRate :: "(real \<times> real) list \<Rightarrow> real \<Rightarrow> real \<Rightarrow> real" where
  "spec_longRate ml longT shortR =
     (if longT = 0 \<or> length ml = 1 then shortR
      else
        let lst = last ml;
            ca = hd (filter (\<lambda>en. fst en \<ge> fst lst - longT) ml)
        in (snd lst - snd ca) / (fst lst - fst ca))"

definition mesh_ex :: "real \<Rightarrow> tMesh" where
  "mesh_ex zmean =
     \<lparr>getNodeList = [node_ex\<lparr>getZ := zmean\<rparr>], getActiveSize = 1, getEdgeList = [],
      getActiveEdgeSize = 0\<rparr>"

definition equil_ex :: "(real \<times> real) list \<Rightarrow> tEquilibCheck" where
  "equil_ex ml = \<lparr>massList = ml, longTime = 2, longRate = 0, shortRate = 0\<rparr>"

subsection \<open>The sub-stepping loop of the integrators\<close>

text \<open>
  Every integrator of \<open>tErosion\<close> has the form
  \<^verbatim>\<open>do { ...; dtg -= dtmax; } while( dtg > tol );\<close>
  The body is a function of the remaining time and the state that returns the sub-step
  \<open>dtmax\<close> it chose and the new state, or an error. The loop may run forever, so it
  takes fuel: \<open>None\<close> says that the fuel ran out (or that a loop inside the body did).
  The list returned with the final state holds the durations of the sub-steps taken,
  first to last.
\<close>

fun do_while_dtg ::
  "real \<Rightarrow> (real \<Rightarrow> 's \<Rightarrow> (error + (real \<times> 's)) option) \<Rightarrow> nat \<Rightarrow> real \<Rightarrow> 's
     \<Rightarrow> (error + ('s \<times> real list)) option" where
  "do_while_dtg tol body 0 dtg s = None"
| "do_while_dtg tol body (Suc fuel) dtg s =
     (case body dtg s of
        None \<Rightarrow> None
      | Some (Inl e) \<Rightarrow> Some (Inl e)
      | Some (Inr (dtmax, s')) \<Rightarrow>
          let dtg = dtg - dtmax in
          if dtg > tol then
            (case do_while_dtg tol body fuel dtg s' of
               None \<Rightarrow> None
             | Some (Inl e) \<Rightarrow> Some (Inl e)
             | Some (Inr (s'', steps)) \<Rightarrow> Some (Inr (s'', dtmax # steps)))
          else Some (Inr (s', [dtmax])))"

text \<open>A loop over the active nodes whose body changes the current node only.\<close>

definition for_active :: "nat \<Rightarrow> (tLNode \<Rightarrow> tLNode) \<Rightarrow> tLNode list \<Rightarrow> tLNode list" where
  "for_active nact f ns = fold (\<lambda>i ns. ns[i := f (ns ! i)]) [0 ..< nact] ns"


subsection \<open>tErosion::Diffuse\<close>

text \<open>
  Modelled from the spec: \<open>tLNode::EroDep(double)\<close> is not among the sources; the
  node's elevation changes by the given depth.
\<close>

definition EroDep_dz :: "real \<Rightarrow> tLNode \<Rightarrow> tLNode" where
  "EroDep_dz dz n = n\<lparr>getZ := getZ n + dz\<rparr>"

definition kVerySmall :: real where
  "kVerySmall = 1 / 10 ^ 6"

definition kEpsOver2 :: real where
  "kEpsOver2 = 0.1"

text \<open>The edge loops visit the active edges; the second one skips every other edge.\<close>

fun skip_complement :: "'a list \<Rightarrow> 'a list" where
  "skip_complement [] = []"
| "skip_complement [ce] = [ce]"
| "skip_complement (ce # complement # rest) = ce # skip_complement rest"

definition Diffuse_dtmax :: "real \<Rightarrow> real \<Rightarrow> tEdge list \<Rightarrow> real" where
  "Diffuse_dtmax kd rt edges =
     fold (\<lambda>ce dtmax.
             let denom = kd * getVEdgLen ce in
             if denom > kVerySmall then
               let delt = kEpsOver2 * (getLength ce / denom)
               in if delt < dtmax then delt else dtmax
             else dtmax)
          edges rt"

text \<open>
  The transfer along one edge. \<open>CalcSlope\<close> (of \<open>tEdge\<close>, not among the sources) is a
  parameter: any function of the edge and the current nodes.
\<close>

definition Diffuse_edge ::
  "real \<Rightarrow> (tLNode list \<Rightarrow> tEdge \<Rightarrow> real) \<Rightarrow> real \<Rightarrow> tEdge \<Rightarrow> tLNode list \<Rightarrow> tLNode list" where
  "Diffuse_edge kd CalcSlope dtmax ce ns =
     (let volout = kd * CalcSlope ns ce * getVEdgLen ce * dtmax;
          ns = ns[getOriginPtr ce := addQsin (- volout) (ns ! getOriginPtr ce)];
          ns = ns[getDestinationPtr ce := addQsin volout (ns ! getDestinationPtr ce)]
      in ns)"

text \<open>One pass of the loop body.\<close>

definition Diffuse_substep ::
  "real \<Rightarrow> (tLNode list \<Rightarrow> tEdge \<Rightarrow> real) \<Rightarrow> int \<Rightarrow> tMesh \<Rightarrow> real \<Rightarrow> tLNode list
     \<Rightarrow> tLNode list" where
  "Diffuse_substep kd CalcSlope noDepoFlag mesh dtmax ns =
     (let ns = for_active (getActiveSize mesh) (setQsin 0) ns;
          ns = fold (Diffuse_edge kd CalcSlope dtmax)
                 (skip_complement (take (getActiveEdgeSize mesh) (getEdgeList mesh))) ns;
          ns = for_active (getActiveSize mesh)
                 (\<lambda>cn. let cn = (if noDepoFlag \<noteq> 0 then
                                   (if getQsin cn > 0 then setQsin 0 cn else cn)
                                 else cn)
                       in EroDep_dz (getQsin cn / getVArea cn) cn)
                 ns
      in ns)"

text \<open>
  The state of the loop is the current \<open>dtmax\<close> and the nodes: after \<open>rt -= dtmax\<close> the
  body ends with \<open>if( dtmax>rt ) dtmax=rt\<close>.
\<close>

definition Diffuse_body ::
  "real \<Rightarrow> (tLNode list \<Rightarrow> tEdge \<Rightarrow> real) \<Rightarrow> int \<Rightarrow> tMesh \<Rightarrow> real \<Rightarrow> real \<times> tLNode list
     \<Rightarrow> (error + (real \<times> (real \<times> tLNode list))) option" where
  "Diffuse_body kd CalcSlope noDepoFlag mesh rt s =
     (let dtmax = fst s;
          ns = Diffuse_substep kd CalcSlope noDepoFlag mesh dtmax (snd s);
          rt' = rt - dtmax
      in Some (Inr (dtmax, ((if dtmax > rt' then rt' else dtmax), ns))))"

definition Diffuse ::
  "real \<Rightarrow> (tLNode list \<Rightarrow> tEdge \<Rightarrow> real) \<Rightarrow> tMesh \<Rightarrow> nat \<Rightarrow> real \<Rightarrow> int
     \<Rightarrow> (error + ((real \<times> tLNode list) \<times> real list)) option" where
  "Diffuse kd CalcSlope mesh fuel rt noDepoFlag =
     (let dtmax = Diffuse_dtmax kd rt (take (getActiveEdgeSize mesh) (getEdgeList mesh))
      in do_while_dtg 0 (Diffuse_body kd CalcSlope noDepoFlag mesh) fuel rt
           (dtmax, getNodeList mesh))"

text \<open>
  Modelled from the spec: the slope of an edge, from the elevations of its end points.
\<close>

definition CalcSlope_ex :: "tLNode list \<Rightarrow> tEdge \<Rightarrow> real" where
  "CalcSlope_ex ns ce =
     (getZ (ns ! getOriginPtr ce) - getZ (ns ! getDestinationPtr ce)) / getLength ce"

definition mesh2_ex :: tMesh where
  "mesh2_ex =
     \<lparr>getNodeList = [node_ex, node_ex\<lparr>getZ := 0, getDownstrmNbr := 1\<rparr>],
      getActiveSize = 2,
      getEdgeList = [\<lparr>getOriginPtr = 0, getDestinationPtr = 1, getLength = 10, getVEdgLen = 1\<rparr>,
                     \<lparr>getOriginPtr = 1, getDestinationPtr = 0, getLength = 10, getVEdgLen = 1\<rparr>],
      getActiveEdgeSize = 2\<rparr>"

subsection \<open>tErosion::DetachErode\<close>

text \<open>
  Modelled from the spec: the stream net is not among the sources. Its data are the
  rain rate, the infiltration, the inlet node (an index into the node list, if any) and
  the sediment load at the inlet, total and per grain size. Its operations
  \<open>SortNodesByNetOrder\<close>, \<open>FindChanGeom\<close> and \<open>FindHydrGeom\<close> are parameters: any functions
  on the node list.
\<close>

record tStreamNet =
  getRainRate :: real
  getInfilt :: real
  getInletNodePtr :: "nat option"
  getInSedLoad :: real
  getInSedLoadm :: "real list"
  SortNodesByNetOrder :: "tLNode list \<Rightarrow> tLNode list"
  FindChanGeom :: "tLNode list \<Rightarrow> tLNode list"
  FindHydrGeom :: "tLNode list \<Rightarrow> tLNode list"

text \<open>
  Results of code that may fail and may loop: \<open>None\<close> when the fuel of a loop ran out,
  \<open>Some (Inl e)\<close> for an abort.
\<close>

definition bind_res ::
  "(error + 'a) option \<Rightarrow> ('a \<Rightarrow> (error + 'b) option) \<Rightarrow> (error + 'b) option" where
  "bind_res m f = (case m of None \<Rightarrow> None | Some (Inl e) \<Rightarrow> Some (Inl e) | Some (Inr x) \<Rightarrow> f x)"

fun for_nodes_res ::
  "(nat \<Rightarrow> tLNode list \<Rightarrow> (error + tLNode list) option) \<Rightarrow> nat list \<Rightarrow> tLNode list
     \<Rightarrow> (error + tLNode list) option" where
  "for_nodes_res body [] ns = Some (Inr ns)"
| "for_nodes_res body (c # rest) ns = bind_res (body c ns) (for_nodes_res body rest)"

text \<open>Zero out the sediment influx of all sizes; the inlet node gets the inlet load.\<close>

definition DetachErode_reset :: "tStreamNet \<Rightarrow> nat \<Rightarrow> tLNode \<Rightarrow> tLNode" where
  "DetachErode_reset strmNet c cn =
     (let cn = setQs 0 cn in
      if Some c \<noteq> getInletNodePtr strmNet then
        let cn = setQsin 0 cn
        in fold (\<lambda>i cn. setQsi i 0 (setQsini i 0 cn)) [0 ..< getNumg cn] cn
      else
        let cn = setQsin (getInSedLoad strmNet) cn
        in fold (\<lambda>i cn. setQsini i (getInSedLoadm strmNet ! i) (setQsi i 0 cn))
             [0 ..< getNumg cn] cn)"

text \<open>
  The transport capacity summed over the layers within the channel depth:
  \<^verbatim>\<open>while((cn->getChanDepth()-depck)>0.0001) { qs+=sedTrans.TransCapacity(cn,i,weight); depck+=cn->getLayerDepth(i); i++; }\<close>
  The transport law \<open>sedTrans\<close> is a parameter (\<open>tc\<close>).
\<close>

fun DetachErode_capacity ::
  "nat \<Rightarrow> (tLNode \<Rightarrow> nat \<Rightarrow> real \<Rightarrow> error + (real \<times> tLNode)) \<Rightarrow> tLNode \<Rightarrow> real \<Rightarrow> nat \<Rightarrow> real
     \<Rightarrow> (error + (tLNode \<times> real \<times> nat \<times> real)) option" where
  "DetachErode_capacity 0 tc cn depck i qs = None"
| "DetachErode_capacity (Suc fuel) tc cn depck i qs =
     (if (getChanDepth cn - depck) > 0.0001 then
        (case (if (depck + getLayerDepth cn i) \<le> getChanDepth cn then
                 tc cn i (getLayerDepth cn i / getChanDepth cn)
               else tc cn i (1 - (depck / getChanDepth cn))) of
           Inl e \<Rightarrow> Some (Inl e)
         | Inr (q, cn) \<Rightarrow>
             DetachErode_capacity fuel tc cn (depck + getLayerDepth cn i) (Suc i) (qs + q))
      else Some (Inr (cn, depck, i, qs)))"

text \<open>
  \<^verbatim>\<open>excap=(qs - cn->getQsin())/cn->getVArea(); if( -drdt > excap ) cn->setDzDt(-excap);\<close>
\<close>

definition DetachErode_limit_rate :: "real \<Rightarrow> real \<Rightarrow> tLNode \<Rightarrow> tLNode" where
  "DetachErode_limit_rate drdt qs cn =
     (let excap = (qs - getQsin cn) / getVArea cn
      in if - drdt > excap then setDzDt (- excap) cn else cn)"

text \<open>
  The erosion rate of one node and the influx it sends downstream. When the channel depth
  ends inside a layer the detachment law is evaluated on layer \<open>i - 1\<close>; there is no such
  layer when the loop above did not run.
\<close>

definition DetachErode_rate ::
  "tBedErodePwrLaw \<Rightarrow> (tLNode \<Rightarrow> nat \<Rightarrow> real \<Rightarrow> error + (real \<times> tLNode)) \<Rightarrow> nat \<Rightarrow> nat
     \<Rightarrow> tLNode list \<Rightarrow> (error + tLNode list) option" where
  "DetachErode_rate bedErode tc fuel c ns =
     (let cn = ns ! c in
      if \<not> getChanDepth cn < 1000 then Some (Inl AssertionFailed)
      else
        bind_res (DetachErode_capacity fuel tc cn 0 0 0) (\<lambda>(cn, depck, i, qs).
          if depck > getChanDepth cn \<and> i = 0 then Some (Inl NullPointer)
          else
            (case DetachCapacity_lyr bedErode cn
                    (if depck > getChanDepth cn then i - 1 else i) of
               Inl e \<Rightarrow> Some (Inl e)
             | Inr (cap, cn) \<Rightarrow>
                 let drdt = - cap;
                     cn = setDrDt drdt cn;
                     cn = setDzDt drdt cn;
                     cn = DetachErode_limit_rate drdt qs cn;
                     ns = ns[c := cn];
                     d = getDownstrmNbr cn;
                     ns = ns[d := addQsin (getQsin cn - getDzDt cn * getVArea cn) (ns ! d)]
                 in Some (Inr ns))))"

text \<open>The local time step, and the per-size influx reset that shares its loop.\<close>

definition DetachErode_dt_node ::
  "tStreamNet \<Rightarrow> nat \<Rightarrow> real \<times> tLNode list \<Rightarrow> real \<times> tLNode list" where
  "DetachErode_dt_node strmNet c s =
     (let dtmax = fst s;
          ns = snd s;
          cn = ns ! c;
          cn = (if Some c \<noteq> getInletNodePtr strmNet then
                  fold (\<lambda>i cn. setQsini i 0 cn) [0 ..< getNumg cn] cn
                else
                  fold (\<lambda>i cn. setQsini i (getInSedLoadm strmNet ! i) cn) [0 ..< getNumg cn] cn);
          ns = ns[c := cn];
          dn = ns ! getDownstrmNbr cn;
          ratediff = getDzDt dn - getDzDt cn
      in
      if ratediff > 0 \<and> getSlope cn > 1 / 10 ^ 7 then
        let dt = (getZ cn - getZ dn) / ratediff;
            dtmax = (if dt < dtmax then dt else dtmax);
            dtmax = (if dt < 0.0001 then 0.0001 else dtmax)
        in (dtmax, ns)
      else (dtmax, ns))"

text \<open>\<open>frc\<close> is the local \<open>frac\<close>, the fraction of the time to zero slope.\<close>

definition DetachErode_dtmax ::
  "tStreamNet \<Rightarrow> nat \<Rightarrow> real \<Rightarrow> tLNode list \<Rightarrow> real \<times> tLNode list" where
  "DetachErode_dtmax strmNet nact dtg ns =
     (let frc = 0.3;
          (dtmax, ns) = fold (DetachErode_dt_node strmNet) [0 ..< nact] (dtg / frc, ns)
      in (dtmax * frc, ns))"

text \<open>
  The depth to erode or deposit at a node over the sub-step, and the flag that tells the
  detachment-limited (0) from the transport-limited (1) case.
\<close>

definition DetachErode_dz :: "tLNode \<Rightarrow> real \<Rightarrow> real \<times> nat" where
  "DetachErode_dz cn dtmax =
     (let excap = (getQs cn - getQsin cn) / getVArea cn in
      if - getDrDt cn < excap then (getDrDt cn * dtmax, 0)
      else (- excap * dtmax, 1))"

text \<open>
  \<^verbatim>\<open>for(j=0;j<cn->getNumg();j++) cn->getDownstrmNbr()->addQsin(j,-ret[j]*cn->getVArea()/dtmax);\<close>
  for the node at index \<open>c\<close>.
\<close>

definition DetachErode_send :: "nat \<Rightarrow> real list \<Rightarrow> real \<Rightarrow> tLNode list \<Rightarrow> tLNode list" where
  "DetachErode_send c ret dtmax ns =
     fold (\<lambda>j ns. let cn = ns ! c;
                      d = getDownstrmNbr cn
                  in ns[d := addQsini j (- (ret ! j) * getVArea cn / dtmax) (ns ! d)])
          [0 ..< getNumg (ns ! c)] ns"

text \<open>
  The amounts to take from layer \<open>i\<close>, size by size, when the layer can supply the whole
  depth \<open>dz\<close>, and when it cannot. Each amount is cut back to what the flow can still
  carry of that size. \<open>erolist\<close> is written before it is read.
\<close>

definition erolist_supply ::
  "nat \<Rightarrow> real \<Rightarrow> real \<Rightarrow> nat \<Rightarrow> real list \<times> tLNode \<Rightarrow> real list \<times> tLNode" where
  "erolist_supply i dz dtmax j s =
     (let erolist = fst s;
          cn = snd s;
          erolist = erolist[j := dz * getLayerDgrade cn i j / getLayerDepth cn i]
      in
      if erolist ! j < (getQsinm cn ! j - getQsm cn ! j) * dtmax / getVArea cn then
        let erolist = erolist[j := (getQsinm cn ! j - getQsm cn ! j) * dtmax / getVArea cn];
            cn = setQsini j 0 cn;
            cn = setQsi j 0 cn
        in (erolist, cn)
      else (erolist, cn))"

definition erolist_deplete ::
  "nat \<Rightarrow> real \<Rightarrow> nat \<Rightarrow> real list \<times> tLNode \<times> nat \<times> real \<Rightarrow> real list \<times> tLNode \<times> nat \<times> real" where
  "erolist_deplete i dtmax j s =
     (case s of (erolist, cn, flag, dz) \<Rightarrow>
        let erolist = erolist[j := - getLayerDgrade cn i j] in
        if erolist ! j < (getQsinm cn ! j - getQsm cn ! j) * dtmax / getVArea cn then
          let erolist = erolist[j := (getQsinm cn ! j - getQsm cn ! j) * dtmax / getVArea cn];
              cn = setQsini j 0 cn;
              cn = setQsi j 0 cn
          in (erolist, cn, 1, dz - erolist ! j)
        else (erolist, cn, flag, dz - erolist ! j))"

text \<open>
  The detachment-limited walk down the layers. \<open>EroDep(i, erolist, timegb)\<close> of \<open>tLNode\<close>
  is a parameter (\<open>erodep\<close>): it returns the amounts it took and the new node.
\<close>

fun DetachErode_detachlim ::
  "nat \<Rightarrow> (nat \<Rightarrow> real list \<Rightarrow> real \<Rightarrow> tLNode \<Rightarrow> real list \<times> tLNode) \<Rightarrow> nat \<Rightarrow> real \<Rightarrow> real
     \<Rightarrow> real \<Rightarrow> real \<Rightarrow> nat \<Rightarrow> real list \<Rightarrow> tLNode list \<Rightarrow> tLNode list option" where
  "DetachErode_detachlim 0 erodep c dtmax timegb dz depck i erolist ns = None"
| "DetachErode_detachlim (Suc fuel) erodep c dtmax timegb dz depck i erolist ns =
     (let cn = ns ! c in
      if dz < - 0.000000001 \<and> depck < getChanDepth cn \<and> i < getNumLayer cn then
        let depck = depck + getLayerDepth cn i in
        if - dz \<le> getLayerDepth cn i then
          let (erolist, cn) = fold (erolist_supply i dz dtmax) [0 ..< getNumg cn] (erolist, cn);
              (ret, cn) = erodep i erolist timegb cn;
              ns = ns[c := cn];
              ns = DetachErode_send c ret dtmax ns
          in DetachErode_detachlim fuel erodep c dtmax timegb 0 depck i erolist ns
        else
          let (erolist, cn, flag, dz) =
                fold (erolist_deplete i dtmax) [0 ..< getNumg cn] (erolist, cn, 0, dz);
              (ret, cn) = erodep i erolist timegb cn;
              ns = ns[c := cn];
              ns = DetachErode_send c ret dtmax ns
          in DetachErode_detachlim fuel erodep c dtmax timegb dz depck
               (if flag = 1 then Suc i else i) erolist ns
      else Some ns)"

text \<open>The transport-limited walk down the layers; \<open>esum\<close> is the local \<open>sum\<close>.\<close>

definition translim_send ::
  "nat \<Rightarrow> real list \<Rightarrow> real \<Rightarrow> nat \<Rightarrow> tLNode list \<times> real list \<times> real
     \<Rightarrow> tLNode list \<times> real list \<times> real" where
  "translim_send c ret dtmax j s =
     (case s of (ns, erolist, esum) \<Rightarrow>
        let cn = ns ! c;
            d = getDownstrmNbr cn;
            ns = ns[d := addQsini j (- (ret ! j) * getVArea cn / dtmax) (ns ! d)];
            erolist = erolist[j := erolist ! j - ret ! j]
        in (ns, erolist, esum + erolist ! j))"

fun DetachErode_translim ::
  "nat \<Rightarrow> (nat \<Rightarrow> real list \<Rightarrow> real \<Rightarrow> tLNode \<Rightarrow> real list \<times> tLNode) \<Rightarrow> nat \<Rightarrow> real \<Rightarrow> real
     \<Rightarrow> real \<Rightarrow> nat \<Rightarrow> real list \<Rightarrow> tLNode list \<Rightarrow> tLNode list option" where
  "DetachErode_translim 0 erodep c dtmax timegb depck i erolist ns = None"
| "DetachErode_translim (Suc fuel) erodep c dtmax timegb depck i erolist ns =
     (let cn = ns ! c in
      if depck < getChanDepth cn then
        let depck = depck + getLayerDepth cn i;
            flag = getNumLayer cn;
            (ret, cn) = erodep i erolist timegb cn;
            ns = ns[c := cn];
            (ns, erolist, esum) =
              fold (translim_send c ret dtmax) [0 ..< getNumg cn] (ns, erolist, 0);
            depck = (if esum > - 0.0000001 then getChanDepth (ns ! c) else depck)
        in DetachErode_translim fuel erodep c dtmax timegb depck
             (if flag = getNumLayer (ns ! c) then Suc i else i) erolist ns
      else Some ns)"

text \<open>Erosion and deposition at the node of index \<open>c\<close> over the sub-step \<open>dtmax\<close>.\<close>

definition DetachErode_apply ::
  "(nat \<Rightarrow> real list \<Rightarrow> real \<Rightarrow> tLNode \<Rightarrow> real list \<times> tLNode) \<Rightarrow> nat \<Rightarrow> real \<Rightarrow> real \<Rightarrow> nat
     \<Rightarrow> tLNode list \<Rightarrow> (error + tLNode list) option" where
  "DetachErode_apply erodep fuel dtmax timegb c ns =
     (let cn = ns ! c;
          (dz, flag) = DetachErode_dz cn dtmax;
          ns = fold (\<lambda>i ns. let cn = ns ! c;
                               d = getDownstrmNbr cn
                           in ns[d := addQsini i (getQsinm cn ! i) (ns ! d)])
                 [0 ..< getNumg cn] ns;
          cn = ns ! c
      in
      if dz < 0 then
        (if flag = 0 then
           map_option Inr
             (DetachErode_detachlim fuel erodep c dtmax timegb dz 0 0
                (replicate (getNumg cn) 0) ns)
         else
           let erolist = map (\<lambda>j. (getQsinm cn ! j - getQsm cn ! j) * dtmax / getVArea cn)
                           [0 ..< getNumg cn]
           in map_option Inr (DetachErode_translim fuel erodep c dtmax timegb 0 0 erolist ns))
      else if dz > 0 then
        let erolist = map (\<lambda>j. (getQsinm cn ! j - getQsm cn ! j) * dtmax / getVArea cn)
                        [0 ..< getNumg cn];
            (ret, cn) = erodep 0 erolist timegb cn;
            ns = ns[c := cn];
            ns = DetachErode_send c ret dtmax ns
        in Some (Inr ns)
      else Some (Inr ns))"

text \<open>One pass of the loop body; the state is \<open>timegb\<close> and the nodes.\<close>

definition DetachErode_body ::
  "tBedErodePwrLaw \<Rightarrow> (tLNode \<Rightarrow> nat \<Rightarrow> real \<Rightarrow> error + (real \<times> tLNode))
     \<Rightarrow> (nat \<Rightarrow> real list \<Rightarrow> real \<Rightarrow> tLNode \<Rightarrow> real list \<times> tLNode) \<Rightarrow> tStreamNet \<Rightarrow> nat \<Rightarrow> nat
     \<Rightarrow> real \<Rightarrow> real \<times> tLNode list \<Rightarrow> (error + (real \<times> (real \<times> tLNode list))) option" where
  "DetachErode_body bedErode tc erodep strmNet nact fuel dtg s =
     (let timegb = fst s;
          ns = fold (\<lambda>c ns. ns[c := DetachErode_reset strmNet c (ns ! c)]) [0 ..< nact] (snd s)
      in
      bind_res (for_nodes_res (DetachErode_rate bedErode tc fuel) [0 ..< nact] ns) (\<lambda>ns.
        let (dtmax, ns) = DetachErode_dtmax strmNet nact dtg ns;
            timegb = timegb + dtmax
        in
        bind_res (for_nodes_res (DetachErode_apply erodep fuel dtmax timegb) [0 ..< nact] ns)
          (\<lambda>ns. Some (Inr (dtmax, (timegb, ns))))))"

text \<open>
  \<open>DetachErode(dtg, strmNet, time)\<close>. The first node of the list is dereferenced before
  the loop, to size the work arrays.
\<close>

definition DetachErode ::
  "tBedErodePwrLaw \<Rightarrow> (tLNode \<Rightarrow> nat \<Rightarrow> real \<Rightarrow> error + (real \<times> tLNode))
     \<Rightarrow> (nat \<Rightarrow> real list \<Rightarrow> real \<Rightarrow> tLNode \<Rightarrow> real list \<times> tLNode) \<Rightarrow> tMesh \<Rightarrow> nat
     \<Rightarrow> real \<Rightarrow> tStreamNet \<Rightarrow> real \<Rightarrow> (error + (tLNode list \<times> real list)) option" where
  "DetachErode bedErode tc erodep mesh fuel dtg strmNet time =
     (if getRainRate strmNet - getInfilt strmNet > 0 then
        if getNodeList mesh = [] then Some (Inl NullPointer)
        else
          let ns = SortNodesByNetOrder strmNet (getNodeList mesh);
              ns = FindChanGeom strmNet ns;
              ns = FindHydrGeom strmNet ns
          in
          bind_res
            (do_while_dtg (1 / 10 ^ 6)
               (DetachErode_body bedErode tc erodep strmNet (getActiveSize mesh) fuel)
               fuel dtg (time, ns))
            (\<lambda>(s, steps). Some (Inr (snd s, steps)))
      else Some (Inr (getNodeList mesh, [])))"

text \<open>
  Modelled from the spec: \<open>tLNode::EroDep(int, tArray<double>, double)\<close> is not among
  the sources. It erodes or deposits the given depth of each grain size at the given
  layer, records the time, never takes more of a size than the layer holds, returns the
  depths it took or added, and moves the elevation by their sum. A layer that erosion
  has emptied is consumed: it leaves the stack, and the layer below takes its index. It
  stands for the parameter \<open>erodep\<close> where a definition is evaluated on example data.
\<close>

definition EroDep_lyr :: "nat \<Rightarrow> real list \<Rightarrow> real \<Rightarrow> tLNode \<Rightarrow> real list \<times> tLNode" where
  "EroDep_lyr i valgrd tt n =
     (let ly = layers n ! i;
          ret = map (\<lambda>(v, g). if v < 0 then max v (- g) else v) (zip valgrd (getDgrade ly));
          ly = ly\<lparr>getDgrade := map (\<lambda>(g, r). g + r) (zip (getDgrade ly) ret),
                 getDepth := getDepth ly + sum_list ret, getRtime := tt\<rparr>;
          lys = (if sum_list ret < 0 \<and> getDepth ly \<le> 0 then
                   take i (layers n) @ drop (Suc i) (layers n)
                 else (layers n)[i := ly])
      in (ret, n\<lparr>layers := lys, getZ := getZ n + sum_list ret\<rparr>))"

definition strm_ex :: "real \<Rightarrow> tStreamNet" where
  "strm_ex rain =
     \<lparr>getRainRate = rain, getInfilt = 1, getInletNodePtr = None, getInSedLoad = 0,
      getInSedLoadm = [0, 0], SortNodesByNetOrder = (\<lambda>ns. ns), FindChanGeom = (\<lambda>ns. ns),
      FindHydrGeom = (\<lambda>ns. ns)\<rparr>"

definition pwr_ex :: tSedTransPwrLaw where
  "pwr_ex = \<lparr>kf = 1, kt_f = 1, mf = 1, nf = 1, pf = 1, tauc = 0\<rparr>"



text \<open>
  The first node with a flux capacity of 10 for each grain size and a thin layer of
  sediment, half as deep as the depth it is to erode, over bedrock.
\<close>

definition nodes_walk_ex :: "tLNode list" where
  "nodes_walk_ex =
     [node_ex\<lparr>getQs := 20, getQsm := [10, 10], getDrDt := - 4,
              layers := [\<lparr>getDepth = 1 / 2, getErody = 3, getSed = 1, getDgrade = [1 / 4, 1 / 4],
                          getRtime = 0\<rparr>,
                         \<lparr>getDepth = 10, getErody = 3, getSed = 0, getDgrade = [5, 5],
                          getRtime = 0\<rparr>]\<rparr>,
      node_ex\<lparr>getZ := 0, getBoundaryFlag := kOpenBoundary\<rparr>]"

subsection \<open>tErosion::ErodeDetachLim\<close>









subsection \<open>tErosion::StreamErode\<close>








subsection \<open>tErosion::StreamErodeMulti\<close>










section \<open>Properties\<close>


subsection \<open>Critical shear stress of the two-fraction laws\<close>

lemma ctor_members_same:
  "tSedTransMineTailings_ctor k g0 g1 = tSedTransWilcock_ctor k g0 g1"
  by (simp add: tSedTransMineTailings_ctor_def tSedTransWilcock_ctor_def)

lemma interpolant_ends:
  fixes low high :: real
  shows "(low - high) / (- 0.3) * 0.10 + (low - ((low - high) / (- 0.3) * 0.1)) = low"
    and "(low - high) / (- 0.3) * 0.40 + (low - ((low - high) / (- 0.3) * 0.1)) = high"
  by (simp_all add: field_simps)

lemma ctor_sand_ends:
  "sands (tSedTransWilcock_ctor k g0 g1) * 0.10 + sandb (tSedTransWilcock_ctor k g0 g1)
     = lowtaucs (tSedTransWilcock_ctor k g0 g1)"
  "sands (tSedTransWilcock_ctor k g0 g1) * 0.40 + sandb (tSedTransWilcock_ctor k g0 g1)
     = hightaucs (tSedTransWilcock_ctor k g0 g1)"
  unfolding tSedTransWilcock_ctor_def Let_def tSedTransWilcock.simps
  by (rule interpolant_ends)+

lemma ctor_grav_ends:
  "gravs (tSedTransWilcock_ctor k g0 g1) * 0.10 + gravb (tSedTransWilcock_ctor k g0 g1)
     = lowtaucg (tSedTransWilcock_ctor k g0 g1)"
  "gravs (tSedTransWilcock_ctor k g0 g1) * 0.40 + gravb (tSedTransWilcock_ctor k g0 g1)
     = hightaucg (tSedTransWilcock_ctor k g0 g1)"
  unfolding tSedTransWilcock_ctor_def Let_def tSedTransWilcock.simps
  by (rule interpolant_ends)+

lemma clamp_form_sand:
  assumes "sands w * 0.10 + sandb w = lowtaucs w" "sands w * 0.40 + sandb w = hightaucs w"
  shows "taucrit_sand w = (\<lambda>p. sands w * max 0.10 (min 0.40 p) + sandb w)"
  using assms by (auto simp: taucrit_sand_def fun_eq_iff max_def min_def)

lemma clamp_form_grav:
  assumes "gravs w * 0.10 + gravb w = lowtaucg w" "gravs w * 0.40 + gravb w = hightaucg w"
  shows "taucrit_grav w = (\<lambda>p. gravs w * max 0.10 (min 0.40 p) + gravb w)"
  using assms by (auto simp: taucrit_grav_def fun_eq_iff max_def min_def)

lemma taucrit_sand_cont: "isCont (taucrit_sand (tSedTransWilcock_ctor k g0 g1)) p"
  unfolding clamp_form_sand [OF ctor_sand_ends]
  by (intro continuous_intros)

lemma taucrit_grav_cont: "isCont (taucrit_grav (tSedTransWilcock_ctor k g0 g1)) p"
  unfolding clamp_form_grav [OF ctor_grav_ends]
  by (intro continuous_intros)

text \<open>
  Claim C5. With the members the constructors compute (Wilcock and mine tailings alike),
  the critical shear stress of each fraction is the low reference value for
  \<open>persand < 0.10\<close>, the high reference value for \<open>persand > 0.40\<close> and the linear
  interpolant in between; the interpolant meets the low value at 0.10 and the high value
  at 0.40, and the function is continuous at every \<open>persand\<close>.
\<close>

theorem wilcock_taucrit_piecewise_continuous:
  fixes k :: tConstants and g0 g1 :: real
  defines "w \<equiv> tSedTransWilcock_ctor k g0 g1"
  defines "m \<equiv> tSedTransMineTailings_ctor k g0 g1"
  shows "m = w
    \<and> (\<forall>p. taucrit_sand w p =
              (if p < 0.10 then lowtaucs w else if p > 0.40 then hightaucs w
               else sands w * p + sandb w))
    \<and> (\<forall>p. taucrit_grav w p =
              (if p < 0.10 then lowtaucg w else if p > 0.40 then hightaucg w
               else gravs w * p + gravb w))
    \<and> sands w * 0.10 + sandb w = lowtaucs w
    \<and> sands w * 0.40 + sandb w = hightaucs w
    \<and> gravs w * 0.10 + gravb w = lowtaucg w
    \<and> gravs w * 0.40 + gravb w = hightaucg w
    \<and> (\<forall>p. isCont (taucrit_sand w) p)
    \<and> (\<forall>p. isCont (taucrit_grav w) p)"
proof -
  have a: "m = w" by (simp add: m_def w_def ctor_members_same)
  have b: "\<forall>p. taucrit_sand w p =
              (if p < 0.10 then lowtaucs w else if p > 0.40 then hightaucs w
               else sands w * p + sandb w)"
    by (simp add: taucrit_sand_def)
  have c: "\<forall>p. taucrit_grav w p =
              (if p < 0.10 then lowtaucg w else if p > 0.40 then hightaucg w
               else gravs w * p + gravb w)"
    by (simp add: taucrit_grav_def)
  have d: "sands w * 0.10 + sandb w = lowtaucs w" "sands w * 0.40 + sandb w = hightaucs w"
    unfolding w_def by (rule ctor_sand_ends)+
  have e: "gravs w * 0.10 + gravb w = lowtaucg w" "gravs w * 0.40 + gravb w = hightaucg w"
    unfolding w_def by (rule ctor_grav_ends)+
  have f: "\<forall>p. isCont (taucrit_sand w) p" unfolding w_def by (simp add: taucrit_sand_cont)
  have g: "\<forall>p. isCont (taucrit_grav w) p" unfolding w_def by (simp add: taucrit_grav_cont)
  from a b c d e f g show ?thesis by blast
qed

subsection \<open>The power-law detachment capacity\<close>

lemma pow_nonneg_base: "0 \<le> x \<Longrightarrow> pow x y = (if y = 0 then 1 else x powr y)"
proof -
  assume x: "0 \<le> x"
  show ?thesis
  proof (cases "y = of_int \<lfloor>y\<rfloor>")
    case False
    then have "y \<noteq> 0" by auto
    with False show ?thesis by (simp add: pow_def)
  next
    case True
    show ?thesis
    proof (cases "y = 0")
      case True
      then show ?thesis by (simp add: pow_def)
    next
      case False
      with \<open>y = of_int \<lfloor>y\<rfloor>\<close> have n: "\<lfloor>y\<rfloor> \<noteq> 0" by auto
      have "x powr y = x powr real_of_int \<lfloor>y\<rfloor>" using \<open>y = of_int \<lfloor>y\<rfloor>\<close> by simp
      also have "\<dots> = x powi \<lfloor>y\<rfloor>"
      proof (cases "x = 0")
        case True
        with n show ?thesis by simp
      next
        case False
        with x show ?thesis by (intro powr_real_of_int') simp_all
      qed
      finally show ?thesis using False \<open>y = of_int \<lfloor>y\<rfloor>\<close> by (simp add: pow_def)
    qed
  qed
qed

lemma pow_nonneg: "0 \<le> x \<Longrightarrow> 0 \<le> pow x y"
  by (simp add: pow_nonneg_base)

lemma pow_mono: "0 \<le> x \<Longrightarrow> x \<le> y \<Longrightarrow> 0 \<le> a \<Longrightarrow> pow x a \<le> pow y a"
  by (simp add: pow_nonneg_base powr_mono2)

lemma pow_one: "pow x 1 = x"
  by (simp add: pow_def)

lemma tau_mono:
  assumes "0 \<le> k" "0 \<le> m" "0 \<le> e" "0 < W" "0 \<le> Q1" "Q1 \<le> Q2" "0 \<le> S1" "S1 \<le> S2"
  shows "k * pow (Q1 / W) m * pow S1 e \<le> k * pow (Q2 / W) m * pow S2 e"
proof -
  have "pow (Q1 / W) m \<le> pow (Q2 / W) m"
    using assms by (intro pow_mono) (simp_all add: divide_right_mono)
  moreover have "pow S1 e \<le> pow S2 e" using assms by (intro pow_mono)
  ultimately have "pow (Q1 / W) m * pow S1 e \<le> pow (Q2 / W) m * pow S2 e"
    using assms by (intro mult_mono pow_nonneg) simp_all
  then show ?thesis using assms(1) by (simp add: mult_left_mono mult.assoc)
qed

lemma rate_mono:
  assumes "0 \<le> e" "0 \<le> p" "t1 \<le> t2"
  shows "e * pow (if t1 - c > 0 then t1 - c else 0) p \<le> e * pow (if t2 - c > 0 then t2 - c else 0) p"
  using assms by (intro mult_left_mono pow_mono) auto

text \<open>
  Claim C9. With non-negative \<open>kt\<close>, \<open>mb\<close>, \<open>nb\<close>, \<open>pb\<close> and layer erodibility, on a
  node of positive channel width and non-negative drainage area, the value each call
  shape of \<open>DetachCapacity\<close> returns does not decrease when the discharge and the slope
  grow (from non-negative values), every other attribute of the node held fixed.
\<close>

theorem DetachCapacity_monotone:
  assumes "0 \<le> kt b" "0 \<le> mb b" "0 \<le> nb b" "0 \<le> pb b"
    and "0 \<le> getLayerErody n 0" "0 \<le> getLayerErody n i" "0 \<le> dt"
    and "0 < getHydrWidth n" "0 \<le> getDrArea n"
    and "0 \<le> Q1" "Q1 \<le> Q2" "0 \<le> S1" "S1 \<le> S2"
  shows "(\<exists>r1 r2 n1 n2.
            DetachCapacity b (n\<lparr>getQ := Q1, getSlope := S1\<rparr>) = Inr (r1, n1)
          \<and> DetachCapacity b (n\<lparr>getQ := Q2, getSlope := S2\<rparr>) = Inr (r2, n2) \<and> r1 \<le> r2)
       \<and> (\<exists>r1 r2 n1 n2.
            DetachCapacity_dt b (n\<lparr>getQ := Q1, getSlope := S1\<rparr>) dt = Inr (r1, n1)
          \<and> DetachCapacity_dt b (n\<lparr>getQ := Q2, getSlope := S2\<rparr>) dt = Inr (r2, n2) \<and> r1 \<le> r2)
       \<and> (\<exists>r1 r2 n1 n2.
            DetachCapacity_lyr b (n\<lparr>getQ := Q1, getSlope := S1\<rparr>) i = Inr (r1, n1)
          \<and> DetachCapacity_lyr b (n\<lparr>getQ := Q2, getSlope := S2\<rparr>) i = Inr (r2, n2) \<and> r1 \<le> r2)"
proof -
  let ?t1 = "kt b * pow (Q1 / getHydrWidth n) (mb b) * pow S1 (nb b)"
  let ?t2 = "kt b * pow (Q2 / getHydrWidth n) (mb b) * pow S2 (nb b)"
  have t: "?t1 \<le> ?t2" using assms by (intro tau_mono) simp_all
  have r0: "getLayerErody n 0 * pow (if ?t1 - getTauCrit n > 0 then ?t1 - getTauCrit n else 0) (pb b)
      \<le> getLayerErody n 0 * pow (if ?t2 - getTauCrit n > 0 then ?t2 - getTauCrit n else 0) (pb b)"
    using assms t by (intro rate_mono) simp_all
  have ri: "getLayerErody n i * pow (if ?t1 - getTauCrit n > 0 then ?t1 - getTauCrit n else 0) (pb b)
      \<le> getLayerErody n i * pow (if ?t2 - getTauCrit n > 0 then ?t2 - getTauCrit n else 0) (pb b)"
    using assms t by (intro rate_mono) simp_all
  have q: "0 \<le> Q2" "0 \<le> S2" using assms by simp_all
  have A: "\<exists>r1 r2 n1 n2.
            DetachCapacity b (n\<lparr>getQ := Q1, getSlope := S1\<rparr>) = Inr (r1, n1)
          \<and> DetachCapacity b (n\<lparr>getQ := Q2, getSlope := S2\<rparr>) = Inr (r2, n2) \<and> r1 \<le> r2"
    using r0 q assms(9,10,12)
    by (cases "getFloodStatus n")
       (auto simp: DetachCapacity_def Let_def setTau_def setDrDt_def getLayerErody_def not_less
             split: if_splits)
  have B: "\<exists>r1 r2 n1 n2.
            DetachCapacity_dt b (n\<lparr>getQ := Q1, getSlope := S1\<rparr>) dt = Inr (r1, n1)
          \<and> DetachCapacity_dt b (n\<lparr>getQ := Q2, getSlope := S2\<rparr>) dt = Inr (r2, n2) \<and> r1 \<le> r2"
    using mult_right_mono [OF r0 assms(7)] q assms(9,10,12)
    by (cases "getFloodStatus n")
       (auto simp: DetachCapacity_dt_def Let_def setTau_def getLayerErody_def not_less
             split: if_splits)
  have C: "\<exists>r1 r2 n1 n2.
            DetachCapacity_lyr b (n\<lparr>getQ := Q1, getSlope := S1\<rparr>) i = Inr (r1, n1)
          \<and> DetachCapacity_lyr b (n\<lparr>getQ := Q2, getSlope := S2\<rparr>) i = Inr (r2, n2) \<and> r1 \<le> r2"
    using ri q assms(9,10,12)
    by (cases "getFloodStatus n")
       (auto simp: DetachCapacity_lyr_def Let_def setTau_def setDrDt_def getLayerErody_def not_less
             split: if_splits)
  from A B C show ?thesis by blast
qed


theorem DetachCapacity_monotone_witness:
  "\<exists>r1 r2 n1 n2.
      DetachCapacity bed_ex (node_ex\<lparr>getQ := 1, getSlope := 1\<rparr>) = Inr (r1, n1)
    \<and> DetachCapacity bed_ex (node_ex\<lparr>getQ := 2, getSlope := 3\<rparr>) = Inr (r2, n2) \<and> r1 \<le> r2"
  using DetachCapacity_monotone [where b = bed_ex and n = node_ex and i = 0 and dt = 1
      and ?Q1.0 = 1 and ?Q2.0 = 2 and ?S1.0 = 1 and ?S2.0 = 3]
  by (simp add: bed_ex_def node_ex_def getLayerErody_def)

text \<open>
  Claim C4 (as amended). The depth form and the layer form return 0 on a flooded node and
  end in a fatal error on a non-flooded node of negative slope. On a non-flooded node of
  non-negative slope whose channel width is not zero and on which the three powers are
  real numbers (\<open>pow_real\<close>: a base that is positive, or zero with a non-negative
  exponent, or negative with an integer exponent), they store the shear stress
  \<open>tau = kt * (Q / width)^mb * slope^nb\<close> and return the layer erodibility times
  \<open>max 0 (tau - critical shear)^pb\<close>, times \<open>dt\<close> in the depth form; the layer form
  also stores the negated rate as \<open>DrDt\<close>. The rate form without a layer index does
  the same only when the discharge is non-negative and, where it computes, the drainage
  area too: it asserts the first on entry, before the test of the flood status, and
  both before it stores the shear stress, and aborts on the assertion otherwise.
\<close>

theorem DetachCapacity_shapes:
  fixes b :: tBedErodePwrLaw and n :: tLNode and dt :: real and i :: nat
  defines "tau \<equiv> kt b * pow (getQ n / getHydrWidth n) (mb b) * pow (getSlope n) (nb b)"
  defines "rate \<equiv> \<lambda>j. getLayerErody n j * pow (max 0 (tau - getTauCrit n)) (pb b)"
  defines "arith \<equiv> getHydrWidth n \<noteq> 0 \<and> pow_real (getQ n / getHydrWidth n) (mb b)
                   \<and> pow_real (getSlope n) (nb b) \<and> pow_real (max 0 (tau - getTauCrit n)) (pb b)"
  shows
   "(getFloodStatus n \<longrightarrow>
        DetachCapacity_dt b n dt = Inr (0, n)
      \<and> DetachCapacity_lyr b n i = Inr (0, n)
      \<and> (0 \<le> getQ n \<longrightarrow> DetachCapacity b n = Inr (0, n)))
  \<and> (\<not> getFloodStatus n \<and> 0 \<le> getSlope n \<and> arith \<longrightarrow>
        DetachCapacity_dt b n dt = Inr (rate 0 * dt, n\<lparr>getTau := tau\<rparr>)
      \<and> DetachCapacity_lyr b n i = Inr (rate i, n\<lparr>getTau := tau, getDrDt := - rate i\<rparr>)
      \<and> (0 \<le> getQ n \<and> 0 \<le> getDrArea n \<longrightarrow>
           DetachCapacity b n = Inr (rate 0, n\<lparr>getTau := tau, getDrDt := - rate 0\<rparr>)))
  \<and> (\<not> getFloodStatus n \<and> getSlope n < 0 \<longrightarrow>
        DetachCapacity_dt b n dt = Inl FatalError
      \<and> DetachCapacity_lyr b n i = Inl FatalError
      \<and> (0 \<le> getQ n \<longrightarrow> DetachCapacity b n = Inl FatalError))
  \<and> (getQ n < 0 \<longrightarrow> DetachCapacity b n = Inl AssertionFailed)
  \<and> (\<not> getFloodStatus n \<and> 0 \<le> getSlope n \<and> getDrArea n < 0 \<longrightarrow>
        DetachCapacity b n = Inl AssertionFailed)"
  unfolding tau_def rate_def arith_def
  by (simp add: DetachCapacity_dt_def DetachCapacity_lyr_def DetachCapacity_def Let_def
        setTau_def setDrDt_def getLayerErody_def max_def not_less not_le)

theorem DetachCapacity_shapes_witness:
  "DetachCapacity_dt bed_ex (node_ex\<lparr>getFloodStatus := True\<rparr>) 2
     = Inr (0, node_ex\<lparr>getFloodStatus := True\<rparr>)
   \<and> DetachCapacity bed_ex (node_ex\<lparr>getFloodStatus := True\<rparr>)
     = Inr (0, node_ex\<lparr>getFloodStatus := True\<rparr>)
   \<and> DetachCapacity_dt bed_ex node_ex 2 = Inr (9, node_ex\<lparr>getTau := 2\<rparr>)
   \<and> DetachCapacity bed_ex node_ex = Inr (9 / 2, node_ex\<lparr>getTau := 2, getDrDt := - (9 / 2)\<rparr>)
   \<and> DetachCapacity_lyr bed_ex node_ex 0
     = Inr (9 / 2, node_ex\<lparr>getTau := 2, getDrDt := - (9 / 2)\<rparr>)
   \<and> DetachCapacity_dt bed_ex (node_ex\<lparr>getQ := - 1\<rparr>) 2
     = Inr (0, node_ex\<lparr>getQ := - 1, getTau := - 1\<rparr>)
   \<and> DetachCapacity_lyr bed_ex (node_ex\<lparr>getQ := - 1\<rparr>) 0
     = Inr (0, node_ex\<lparr>getQ := - 1, getTau := - 1, getDrDt := 0\<rparr>)
   \<and> DetachCapacity_dt bed_ex (node_ex\<lparr>getSlope := - 1\<rparr>) 2 = Inl FatalError
   \<and> DetachCapacity bed_ex (node_ex\<lparr>getSlope := - 1\<rparr>) = Inl FatalError
   \<and> DetachCapacity bed_ex (node_ex\<lparr>getQ := - 1\<rparr>) = Inl AssertionFailed
   \<and> DetachCapacity bed_ex (node_ex\<lparr>getDrArea := - 1\<rparr>) = Inl AssertionFailed"
  using DetachCapacity_shapes [of "node_ex\<lparr>getFloodStatus := True\<rparr>" bed_ex 2 0]
    DetachCapacity_shapes [of node_ex bed_ex 2 0]
    DetachCapacity_shapes [of "node_ex\<lparr>getSlope := - 1\<rparr>" bed_ex 2 0]
    DetachCapacity_shapes [of "node_ex\<lparr>getQ := - 1\<rparr>" bed_ex 2 0]
    DetachCapacity_shapes [of "node_ex\<lparr>getDrArea := - 1\<rparr>" bed_ex 2 0]
  by (simp add: bed_ex_def node_ex_def getLayerErody_def pow_def pow_real_def)

text \<open>
  The claim as first stated fails: on a flooded node of negative discharge the rate form
  does not return 0 but aborts on its first assertion.
\<close>

theorem DetachCapacity_flooded_counterexample:
  "getFloodStatus (node_ex\<lparr>getFloodStatus := True, getQ := - 1\<rparr>)
   \<and> DetachCapacity bed_ex (node_ex\<lparr>getFloodStatus := True, getQ := - 1\<rparr>)
       \<noteq> Inr (0, node_ex\<lparr>getFloodStatus := True, getQ := - 1\<rparr>)
   \<and> DetachCapacity bed_ex (node_ex\<lparr>getFloodStatus := True, getQ := - 1\<rparr>)
       = Inl AssertionFailed"
  by (simp add: DetachCapacity_def node_ex_def)

subsection \<open>Transport capacity: negative slope, and the multi-fraction whole-node shape\<close>

lemma whole_node_neg_slope:
  assumes "getSlope nd < 0"
  shows "tSedTransWilcock_TransCapacity k w nd
           = Inr (0, nd\<lparr>getQsm := (getQsm nd)[0 := 0, 1 := 0], getQs := 0\<rparr>)"
    and "tSedTransMineTailings_TransCapacity k w nd
           = Inr (0, nd\<lparr>getQsm := (getQsm nd)[0 := 0, 1 := 0], getQs := 0\<rparr>)"
  using assms
  by (simp_all add: tSedTransWilcock_TransCapacity_def tSedTransMineTailings_TransCapacity_def
        Let_def setQsi_def setQs_def)

lemma lyr_neg_slope:
  assumes "getSlope nd < 0" "0 < getLayerDepth nd i"
  shows "tSedTransWilcock_TransCapacity_lyr k w nd i weight
           = Inr (0, nd\<lparr>getQsm := (if getNumg nd = 2 then (getQsm nd)[0 := 0, 1 := 0]
                                     else (getQsm nd)[0 := 0]), getQs := 0\<rparr>)"
    and "tSedTransMineTailings_TransCapacity_lyr k w nd i weight
           = Inr (0, nd\<lparr>getQsm := (if getNumg nd = 2 then (getQsm nd)[0 := 0, 1 := 0]
                                     else (getQsm nd)[0 := 0]), getQs := 0\<rparr>)"
  using assms
  by (simp_all add: tSedTransWilcock_TransCapacity_lyr_def
        tSedTransMineTailings_TransCapacity_lyr_def Let_def setQsi_def setQs_def)

lemma lyr_empty_layer:
  assumes "getLayerDepth nd i \<le> 0"
  shows "tSedTransWilcock_TransCapacity_lyr k w nd i weight = Inl AssertionFailed"
    and "tSedTransMineTailings_TransCapacity_lyr k w nd i weight = Inl AssertionFailed"
  using assms
  by (simp_all add: tSedTransWilcock_TransCapacity_lyr_def
        tSedTransMineTailings_TransCapacity_lyr_def)

text \<open>
  Claim C6 (as amended). On a node of negative slope the whole-node shapes of the Wilcock
  and mine-tailings laws do not fail: they set the fluxes \<open>Qs\<close> of fractions 0 and 1 and the
  total \<open>Qs\<close> to zero and return 0. The per-layer shapes first assert that the depth of
  the layer is positive and abort when it is not; when it is, they set the flux of
  fraction 0 (and of fraction 1 when the node has exactly two grain sizes) and the total
  to zero and return 0.
\<close>

theorem negative_slope_zero_capacity:
  assumes "getSlope nd < 0"
  shows "tSedTransWilcock_TransCapacity k w nd
           = Inr (0, nd\<lparr>getQsm := (getQsm nd)[0 := 0, 1 := 0], getQs := 0\<rparr>)
       \<and> tSedTransMineTailings_TransCapacity k w nd
           = Inr (0, nd\<lparr>getQsm := (getQsm nd)[0 := 0, 1 := 0], getQs := 0\<rparr>)
       \<and> (0 < getLayerDepth nd i \<longrightarrow>
            tSedTransWilcock_TransCapacity_lyr k w nd i weight
              = Inr (0, nd\<lparr>getQsm := (if getNumg nd = 2 then (getQsm nd)[0 := 0, 1 := 0]
                                        else (getQsm nd)[0 := 0]), getQs := 0\<rparr>)
          \<and> tSedTransMineTailings_TransCapacity_lyr k w nd i weight
              = Inr (0, nd\<lparr>getQsm := (if getNumg nd = 2 then (getQsm nd)[0 := 0, 1 := 0]
                                        else (getQsm nd)[0 := 0]), getQs := 0\<rparr>))
       \<and> (getLayerDepth nd i \<le> 0 \<longrightarrow>
            tSedTransWilcock_TransCapacity_lyr k w nd i weight = Inl AssertionFailed
          \<and> tSedTransMineTailings_TransCapacity_lyr k w nd i weight = Inl AssertionFailed)"
  using whole_node_neg_slope [OF assms] lyr_neg_slope [OF assms] lyr_empty_layer
  by simp

theorem negative_slope_zero_capacity_witness:
  "getSlope (node_ex\<lparr>getSlope := - 1, getQsm := [7, 8], getQs := 15\<rparr>) < 0
   \<and> tSedTransWilcock_TransCapacity k_ex (tSedTransWilcock_ctor k_ex (1 / 1000) (1 / 100))
        (node_ex\<lparr>getSlope := - 1, getQsm := [7, 8], getQs := 15\<rparr>)
      = Inr (0, node_ex\<lparr>getSlope := - 1, getQsm := [0, 0], getQs := 0\<rparr>)
   \<and> tSedTransMineTailings_TransCapacity_lyr k_ex
        (tSedTransMineTailings_ctor k_ex (1 / 1000) (1 / 100))
        (node_ex\<lparr>getSlope := - 1, getQsm := [7, 8], getQs := 15\<rparr>) 0 1
      = Inr (0, node_ex\<lparr>getSlope := - 1, getQsm := [0, 0], getQs := 0\<rparr>)"
  using negative_slope_zero_capacity
    [where nd = "node_ex\<lparr>getSlope := - 1, getQsm := [7, 8], getQs := 15\<rparr>" and i = 0
       and k = k_ex and weight = 1]
  by (simp add: node_ex_def getLayerDepth_def)

text \<open>
  The claim as first stated fails: on a node of negative slope whose layer has depth 0,
  the per-layer shape aborts on its assertion.
\<close>

theorem negative_slope_lyr_counterexample:
  "getSlope (node_ex\<lparr>getSlope := - 1, layers := [\<lparr>getDepth = 0, getErody = 3, getSed = 1,
        getDgrade = [0, 0], getRtime = 0\<rparr>]\<rparr>) < 0
   \<and> tSedTransWilcock_TransCapacity_lyr k_ex (tSedTransWilcock_ctor k_ex (1 / 1000) (1 / 100))
        (node_ex\<lparr>getSlope := - 1, layers := [\<lparr>getDepth = 0, getErody = 3, getSed = 1,
           getDgrade = [0, 0], getRtime = 0\<rparr>]\<rparr>) 0 1
      = Inl AssertionFailed"
  by (simp add: tSedTransWilcock_TransCapacity_lyr_def node_ex_def getLayerDepth_def)

lemma upt_0_2: "[0 ..< 2] = [0, 1]"
  by (simp add: numeral_2_eq_2)

lemma multi_lyr_ex:
  "tSedTransPwrLawMulti_TransCapacity_lyr multi_ex node_ex 0 1
     = Inr (1 / 2, node_ex\<lparr>getTau := 2, getQsm := [1 / 2, 0], getQs := 1 / 2\<rparr>)"
  by (simp add: tSedTransPwrLawMulti_TransCapacity_lyr_def multi_ex_def node_ex_def Let_def
        getLayerDgrade_def getLayerDepth_def setTau_def setQs_def addQsi_def pow_def
        upt_0_2)

text \<open>
  Claim C10. The whole-node shape of the multi-fraction power law returns 0 for every node
  and leaves the node as it was. The whole-node shapes of the other laws write the
  capacity they return to the node's \<open>Qs\<close>, and the per-layer shape of the same law
  computes a capacity and writes shear stress and fluxes (shown on the example node).
\<close>

theorem PwrLawMulti_whole_node_zero:
  "tSedTransPwrLawMulti_TransCapacity p node = Inr (0, node)
   \<and> (case tSedTransPwrLaw_TransCapacity q node of
          Inr (c, nd') \<Rightarrow> getQs nd' = c | Inl e \<Rightarrow> getSlope node < 0)
   \<and> (case tSedTransWilcock_TransCapacity k w node of
          Inr (c, nd') \<Rightarrow> getQs nd' = c | Inl e \<Rightarrow> False)
   \<and> (case tSedTransMineTailings_TransCapacity k w node of
          Inr (c, nd') \<Rightarrow> getQs nd' = c | Inl e \<Rightarrow> False)
   \<and> tSedTransPwrLawMulti_TransCapacity_lyr multi_ex node_ex 0 1
        = Inr (1 / 2, node_ex\<lparr>getTau := 2, getQsm := [1 / 2, 0], getQs := 1 / 2\<rparr>)"
proof -
  have a: "tSedTransPwrLawMulti_TransCapacity p node = Inr (0, node)"
    by (simp add: tSedTransPwrLawMulti_TransCapacity_def)
  have b: "case tSedTransPwrLaw_TransCapacity q node of
          Inr (c, nd') \<Rightarrow> getQs nd' = c | Inl e \<Rightarrow> getSlope node < 0"
    by (simp add: tSedTransPwrLaw_TransCapacity_def Let_def setQs_def split: prod.splits)
  have c: "case tSedTransWilcock_TransCapacity k w node of
          Inr (c, nd') \<Rightarrow> getQs nd' = c | Inl e \<Rightarrow> False"
    by (simp add: tSedTransWilcock_TransCapacity_def Let_def setQs_def)
  have d: "case tSedTransMineTailings_TransCapacity k w node of
          Inr (c, nd') \<Rightarrow> getQs nd' = c | Inl e \<Rightarrow> False"
    by (simp add: tSedTransMineTailings_TransCapacity_def Let_def setQs_def)
  from a b c d multi_lyr_ex show ?thesis by blast
qed

subsection \<open>The equilibrium tracker\<close>

lemma scan_massList_result:
  assumes "target \<le> fst (last (na # rest))"
  shows "\<exists>k. Suc k < length (ca # na # rest)
           \<and> scan_massList target ca na rest = Inr ((ca # na # rest) ! k)
           \<and> target \<le> fst ((ca # na # rest) ! Suc k)
           \<and> (\<forall>j. 1 \<le> j \<and> j \<le> k \<longrightarrow> fst ((ca # na # rest) ! j) < target)"
  using assms
proof (induction rest arbitrary: ca na)
  case Nil
  then show ?case by (intro exI [of _ 0]) simp
next
  case (Cons x rest)
  show ?case
  proof (cases "fst na < target")
    case False
    then show ?thesis by (intro exI [of _ 0]) simp
  next
    case True
    from Cons.prems have "target \<le> fst (last (x # rest))" by simp
    from Cons.IH [OF this, of na] obtain k where k:
      "Suc k < length (na # x # rest)"
      "scan_massList target na x rest = Inr ((na # x # rest) ! k)"
      "target \<le> fst ((na # x # rest) ! Suc k)"
      "\<forall>j. 1 \<le> j \<and> j \<le> k \<longrightarrow> fst ((na # x # rest) ! j) < target"
      by blast
    have "\<forall>j. 1 \<le> j \<and> j \<le> Suc k \<longrightarrow> fst ((ca # na # x # rest) ! j) < target"
    proof (intro allI impI)
      fix j assume j: "1 \<le> j \<and> j \<le> Suc k"
      show "fst ((ca # na # x # rest) ! j) < target"
      proof (cases "j = 1")
        case True
        with \<open>fst na < target\<close> show ?thesis by simp
      next
        case False
        with j obtain j' where "j = Suc j'" "1 \<le> j'" "j' \<le> k"
          by (cases j) auto
        with k(4) show ?thesis by simp
      qed
    qed
    with k True show ?thesis by (intro exI [of _ "Suc k"]) simp
  qed
qed

lemma FindIterChngRate_result:
  assumes "FindIterChngRate e now mesh = Inr (sr, e1)"
  shows "longTime e1 = longTime e" "shortRate e1 = sr" "massList e1 \<noteq> []"
    "fst (last (massList e1)) = now" "\<exists>m. massList e1 = massList e @ [m]"
  using assms
  by (auto simp: FindIterChngRate_def Let_def split: if_splits)

lemma FindLongTermChngRate_short:
  assumes "FindIterChngRate e now mesh = Inr (sr, e1)"
    and "longTime e = 0 \<or> length (massList e1) = 1"
  shows "FindLongTermChngRate e now mesh = Inr (sr, e1\<lparr>longRate := sr\<rparr>)"
  using assms FindIterChngRate_result [OF assms(1)]
  by (auto simp: FindLongTermChngRate_def Let_def)

lemma FindLongTermChngRate_long:
  assumes it: "FindIterChngRate e now mesh = Inr (sr, e1)"
    and lt: "0 < longTime e" and len: "1 < length (massList e1)"
  shows "\<exists>k. Suc k < length (massList e1)
       \<and> fst (last (massList e1)) - longTime e \<le> fst (massList e1 ! Suc k)
       \<and> (\<forall>j. 1 \<le> j \<and> j \<le> k \<longrightarrow> fst (massList e1 ! j) < fst (last (massList e1)) - longTime e)
       \<and> (0 < k \<longrightarrow> longTime e < fst (last (massList e1)) - fst (massList e1 ! k))
       \<and> FindLongTermChngRate e now mesh =
           (if fst (last (massList e1)) - fst (massList e1 ! k) > 0 then
              Inr ((snd (last (massList e1)) - snd (massList e1 ! k))
                     / (fst (last (massList e1)) - fst (massList e1 ! k)),
                   e1\<lparr>longRate := (snd (last (massList e1)) - snd (massList e1 ! k))
                     / (fst (last (massList e1)) - fst (massList e1 ! k))\<rparr>)
            else Inl AssertionFailed)"
proof -
  note r = FindIterChngRate_result [OF it]
  from len obtain ca na rest where ml: "massList e1 = ca # na # rest"
    by (cases "massList e1"; cases "tl (massList e1)") auto
  let ?target = "fst (last (massList e1)) - longTime e"
  have "?target \<le> fst (last (na # rest))" using lt ml by simp
  from scan_massList_result [OF this, of ca] obtain k where k:
    "Suc k < length (ca # na # rest)"
    "scan_massList ?target ca na rest = Inr ((ca # na # rest) ! k)"
    "?target \<le> fst ((ca # na # rest) ! Suc k)"
    "\<forall>j. 1 \<le> j \<and> j \<le> k \<longrightarrow> fst ((ca # na # rest) ! j) < ?target"
    by blast
  have "FindLongTermChngRate e now mesh =
           (if fst (last (massList e1)) - fst (massList e1 ! k) > 0 then
              Inr ((snd (last (massList e1)) - snd (massList e1 ! k))
                     / (fst (last (massList e1)) - fst (massList e1 ! k)),
                   e1\<lparr>longRate := (snd (last (massList e1)) - snd (massList e1 ! k))
                     / (fst (last (massList e1)) - fst (massList e1 ! k))\<rparr>)
            else Inl AssertionFailed)"
    using it lt r(1) k(2) ml
    by (simp add: FindLongTermChngRate_def Let_def)
  moreover have "0 < k \<longrightarrow> longTime e < fst (last (massList e1)) - fst (massList e1 ! k)"
  proof
    assume "0 < k"
    then have "1 \<le> k \<and> k \<le> k" by simp
    with k(4) have "fst ((ca # na # rest) ! k) < ?target" by blast
    then show "longTime e < fst (last (massList e1)) - fst (massList e1 ! k)"
      unfolding ml by simp
  qed
  ultimately show ?thesis using k(1,3,4) unfolding ml [symmetric] by blast
qed

lemma equil_example:
  "FindLongTermChngRate (equil_ex [(0, 10), (1, 11)]) 2 (mesh_ex (27 / 2))
     = Inr (7 / 4, \<lparr>massList = [(0, 10), (1, 11), (2, 27 / 2)], longTime = 2,
                    longRate = 7 / 4, shortRate = 5 / 2\<rparr>)"
  by (simp add: FindLongTermChngRate_def FindIterChngRate_def equil_ex_def mesh_ex_def
        node_ex_def Let_def)

lemma equil_short_history:
  "FindLongTermChngRate ((equil_ex [(1, 10), (2, 11)])\<lparr>longTime := 5\<rparr>) 3 (mesh_ex 14)
     = Inr (2, \<lparr>massList = [(1, 10), (2, 11), (3, 14)], longTime = 5,
                longRate = 2, shortRate = 3\<rparr>)"
  by (simp add: FindLongTermChngRate_def FindIterChngRate_def equil_ex_def mesh_ex_def
        node_ex_def Let_def)

text \<open>
  Claim C3 (as amended). After \<open>FindIterChngRate\<close> has appended the new sample: if
  \<open>longTime\<close> is zero or the history holds one entry, the long-term rate is the
  short-term rate. If \<open>longTime\<close> is positive and the history holds more entries, the
  scan starts at the second-oldest entry and stops at the first entry whose time is at
  least the latest time minus \<open>longTime\<close>; the long-term rate is taken between the
  latest entry and the entry just before the one the scan stopped at (entry \<open>k\<close> below),
  and the call aborts on its assertion unless their time difference is positive. When
  entry \<open>k\<close> is not the oldest entry, the time between it and the latest entry is more
  than \<open>longTime\<close>; when it is the oldest, that time is the length of the whole history,
  which can be less than \<open>longTime\<close>. On a history holding (0, 10) and (1, 11), the
  sample (2, 13.5) gives the short-term rate 2.5 and, with window 2, the long-term rate
  1.75. On a history holding (1, 10) and (2, 11), the sample (3, 14) gives, with
  window 5, the long-term rate 2, taken over a time of 2.
\<close>

theorem FindLongTermChngRate_rate:
  assumes "FindIterChngRate e now mesh = Inr (sr, e1)"
  shows "(longTime e = 0 \<or> length (massList e1) = 1 \<longrightarrow>
            FindLongTermChngRate e now mesh = Inr (sr, e1\<lparr>longRate := sr\<rparr>))
       \<and> (0 < longTime e \<and> 1 < length (massList e1) \<longrightarrow>
            (\<exists>k. Suc k < length (massList e1)
               \<and> fst (last (massList e1)) - longTime e \<le> fst (massList e1 ! Suc k)
               \<and> (\<forall>j. 1 \<le> j \<and> j \<le> k \<longrightarrow>
                      fst (massList e1 ! j) < fst (last (massList e1)) - longTime e)
               \<and> (0 < k \<longrightarrow> longTime e < fst (last (massList e1)) - fst (massList e1 ! k))
               \<and> FindLongTermChngRate e now mesh =
                   (if fst (last (massList e1)) - fst (massList e1 ! k) > 0 then
                      Inr ((snd (last (massList e1)) - snd (massList e1 ! k))
                             / (fst (last (massList e1)) - fst (massList e1 ! k)),
                           e1\<lparr>longRate := (snd (last (massList e1)) - snd (massList e1 ! k))
                             / (fst (last (massList e1)) - fst (massList e1 ! k))\<rparr>)
                    else Inl AssertionFailed)))
       \<and> FindLongTermChngRate (equil_ex [(0, 10), (1, 11)]) 2 (mesh_ex (27 / 2))
           = Inr (7 / 4, \<lparr>massList = [(0, 10), (1, 11), (2, 27 / 2)], longTime = 2,
                          longRate = 7 / 4, shortRate = 5 / 2\<rparr>)
       \<and> FindLongTermChngRate ((equil_ex [(1, 10), (2, 11)])\<lparr>longTime := 5\<rparr>) 3 (mesh_ex 14)
           = Inr (2, \<lparr>massList = [(1, 10), (2, 11), (3, 14)], longTime = 5,
                      longRate = 2, shortRate = 3\<rparr>)"
  using FindLongTermChngRate_short [OF assms] FindLongTermChngRate_long [OF assms]
    equil_example equil_short_history
  by blast

lemma iter_ex:
  "FindIterChngRate ((equil_ex [(1, 10), (2, 11), (3, 27 / 2)])\<lparr>longTime := 1\<rparr>) 4 (mesh_ex 14)
     = Inr (1 / 2, \<lparr>massList = [(1, 10), (2, 11), (3, 27 / 2), (4, 14)], longTime = 1,
                    longRate = 0, shortRate = 1 / 2\<rparr>)"
  by (simp add: FindIterChngRate_def equil_ex_def mesh_ex_def node_ex_def Let_def)

theorem FindLongTermChngRate_rate_witness:
  "FindIterChngRate ((equil_ex [(1, 10), (2, 11), (3, 27 / 2)])\<lparr>longTime := 1\<rparr>) 4 (mesh_ex 14)
     = Inr (1 / 2, \<lparr>massList = [(1, 10), (2, 11), (3, 27 / 2), (4, 14)], longTime = 1,
                    longRate = 0, shortRate = 1 / 2\<rparr>)
   \<and> FindLongTermChngRate ((equil_ex [(1, 10), (2, 11), (3, 27 / 2)])\<lparr>longTime := 1\<rparr>) 4
        (mesh_ex 14)
     = Inr (3 / 2, \<lparr>massList = [(1, 10), (2, 11), (3, 27 / 2), (4, 14)], longTime = 1,
                    longRate = 3 / 2, shortRate = 1 / 2\<rparr>)
   \<and> (1 :: real) < 4 - 2"
proof -
  let ?e = "(equil_ex [(1, 10), (2, 11), (3, 27 / 2)])\<lparr>longTime := 1\<rparr>"
  let ?e1 = "\<lparr>massList = [(1, 10), (2, 11), (3, 27 / 2), (4, 14)], longTime = 1,
               longRate = 0, shortRate = 1 / 2\<rparr> :: tEquilibCheck"
  have lt: "0 < longTime ?e \<and> 1 < length (massList ?e1)"
    by (simp add: equil_ex_def)
  from FindLongTermChngRate_rate [OF iter_ex] lt
  obtain k where k: "Suc k < length (massList ?e1)"
    "fst (last (massList ?e1)) - longTime ?e \<le> fst (massList ?e1 ! Suc k)"
    "\<forall>j. 1 \<le> j \<and> j \<le> k \<longrightarrow>
        fst (massList ?e1 ! j) < fst (last (massList ?e1)) - longTime ?e"
    "FindLongTermChngRate ?e 4 (mesh_ex 14) =
       (if fst (last (massList ?e1)) - fst (massList ?e1 ! k) > 0 then
          Inr ((snd (last (massList ?e1)) - snd (massList ?e1 ! k))
                 / (fst (last (massList ?e1)) - fst (massList ?e1 ! k)),
               ?e1\<lparr>longRate := (snd (last (massList ?e1)) - snd (massList ?e1 ! k))
                 / (fst (last (massList ?e1)) - fst (massList ?e1 ! k))\<rparr>)
        else Inl AssertionFailed)"
    by blast
  from k(1) have "k = 0 \<or> k = 1 \<or> k = 2" by auto
  moreover have "k \<noteq> 0"
  proof
    assume "k = 0"
    with k(2) show False by (simp add: equil_ex_def)
  qed
  moreover have "k \<noteq> 2"
  proof
    assume "k = 2"
    then have "1 \<le> (2::nat) \<and> 2 \<le> k" by simp
    with k(3) have "fst (massList ?e1 ! 2) < fst (last (massList ?e1)) - longTime ?e"
      by blast
    then show False by (simp add: equil_ex_def)
  qed
  ultimately have "k = 1" by blast
  with k(4) iter_ex show ?thesis by simp
qed

text \<open>
  The claim as first stated fails: on the history (1, 10), (2, 11), (3, 13.5) with window 2
  and the new sample (4, 14), the earliest entry whose time is at least 4 - 2 is (2, 11),
  which gives the rate 3/2; the code takes the entry before it and returns 4/3.
\<close>

theorem FindLongTermChngRate_counterexample:
  "FindLongTermChngRate (equil_ex [(1, 10), (2, 11), (3, 27 / 2)]) 4 (mesh_ex 14)
     = Inr (4 / 3, \<lparr>massList = [(1, 10), (2, 11), (3, 27 / 2), (4, 14)], longTime = 2,
                    longRate = 4 / 3, shortRate = 1 / 2\<rparr>)
   \<and> spec_longRate [(1, 10), (2, 11), (3, 27 / 2), (4, 14)] 2 (1 / 2) = 3 / 2
   \<and> spec_longRate [(1, 10), (2, 11), (3, 27 / 2), (4, 14)] 2 (1 / 2) \<noteq> 4 / 3"
  by (simp add: FindLongTermChngRate_def FindIterChngRate_def equil_ex_def mesh_ex_def
        node_ex_def Let_def spec_longRate_def)

subsection \<open>Diffusion without deposition\<close>

lemma for_active_Suc:
  "for_active (Suc n) f ns = (for_active n f ns)[n := f (for_active n f ns ! n)]"
  by (simp add: for_active_def)

lemma length_for_active [simp]: "length (for_active n f ns) = length ns"
  by (induction n) (simp_all add: for_active_Suc, simp add: for_active_def)

lemma for_active_nth:
  "j < length ns \<Longrightarrow> for_active n f ns ! j = (if j < n then f (ns ! j) else ns ! j)"
proof (induction n)
  case 0
  then show ?case by (simp add: for_active_def)
next
  case (Suc n)
  then show ?case
    by (cases "j = n") (auto simp: for_active_Suc nth_list_update)
qed

lemma upd_keeps:
  assumes "\<And>n. f (g n) = f n"
  shows "map f (ns[i := g (ns ! i)]) = map f ns"
  by (cases "i < length ns")
     (simp_all add: map_update assms list_update_same_conv list_update_beyond not_less)

lemma Diffuse_edge_length [simp]: "length (Diffuse_edge kd cs dtmax ce ns) = length ns"
  by (simp add: Diffuse_edge_def Let_def)

lemma Diffuse_edge_keeps:
  assumes "\<And>v n. f (addQsin v n) = f n"
  shows "map f (Diffuse_edge kd cs dtmax ce ns) = map f ns"
  unfolding Diffuse_edge_def Let_def
  by (simp add: upd_keeps assms)

lemma Diffuse_edges_length [simp]:
  "length (fold (Diffuse_edge kd cs dtmax) es ns) = length ns"
  by (induction es arbitrary: ns) simp_all

lemma Diffuse_edges_keeps:
  assumes "\<And>v n. f (addQsin v n) = f n"
  shows "map f (fold (Diffuse_edge kd cs dtmax) es ns) = map f ns"
  by (induction es arbitrary: ns) (simp_all add: Diffuse_edge_keeps assms)

lemma Diffuse_substep_length [simp]:
  "length (Diffuse_substep kd cs noDepoFlag mesh dtmax ns) = length ns"
  by (simp add: Diffuse_substep_def Let_def)

lemma nth_of_map_eq: "map f xs = map f ys \<Longrightarrow> j < length xs \<Longrightarrow> f (xs ! j) = f (ys ! j)"
  by (metis length_map nth_map)

lemma Diffuse_substep_node:
  assumes j: "j < length ns"
  shows "getVArea (Diffuse_substep kd cs noDepoFlag mesh dtmax ns ! j) = getVArea (ns ! j)"
    and "noDepoFlag \<noteq> 0 \<Longrightarrow> 0 < getVArea (ns ! j) \<or> \<not> j < getActiveSize mesh \<Longrightarrow>
           getZ (Diffuse_substep kd cs noDepoFlag mesh dtmax ns ! j) \<le> getZ (ns ! j)"
    and "noDepoFlag \<noteq> 0 \<Longrightarrow> j < getActiveSize mesh \<Longrightarrow>
           getQsin (Diffuse_substep kd cs noDepoFlag mesh dtmax ns ! j) \<le> 0"
proof -
  let ?a = "for_active (getActiveSize mesh) (setQsin 0) ns"
  let ?b = "fold (Diffuse_edge kd cs dtmax)
              (skip_complement (take (getActiveEdgeSize mesh) (getEdgeList mesh))) ?a"
  have za: "getZ (?a ! j) = getZ (ns ! j)" "getVArea (?a ! j) = getVArea (ns ! j)"
    using j by (simp_all add: for_active_nth setQsin_def)
  have zb: "getZ (?b ! j) = getZ (?a ! j)"
    using nth_of_map_eq [OF Diffuse_edges_keeps [of getZ kd cs dtmax _ ?a], of j] j
    by (simp add: addQsin_def)
  have vb: "getVArea (?b ! j) = getVArea (?a ! j)"
    using nth_of_map_eq [OF Diffuse_edges_keeps [of getVArea kd cs dtmax _ ?a], of j] j
    by (simp add: addQsin_def)
  show "getVArea (Diffuse_substep kd cs noDepoFlag mesh dtmax ns ! j) = getVArea (ns ! j)"
    using j za vb
    by (simp add: Diffuse_substep_def Let_def for_active_nth EroDep_dz_def setQsin_def)
  show "getZ (Diffuse_substep kd cs noDepoFlag mesh dtmax ns ! j) \<le> getZ (ns ! j)"
    if "noDepoFlag \<noteq> 0" "0 < getVArea (ns ! j) \<or> \<not> j < getActiveSize mesh"
    using j za zb vb that
    by (auto simp: Diffuse_substep_def Let_def for_active_nth EroDep_dz_def setQsin_def
          divide_nonpos_pos not_less)
  show "getQsin (Diffuse_substep kd cs noDepoFlag mesh dtmax ns ! j) \<le> 0"
    if "noDepoFlag \<noteq> 0" "j < getActiveSize mesh"
    using j that
    by (auto simp: Diffuse_substep_def Let_def for_active_nth EroDep_dz_def setQsin_def
          not_less)
qed


lemma do_while_dtg_state:
  assumes "do_while_dtg tol body fuel dtg s = Some (Inr (s', steps))"
    and "P s"
    and "\<And>dtg s d s'. P s \<Longrightarrow> body dtg s = Some (Inr (d, s')) \<Longrightarrow> P s'"
  shows "P s'"
  using assms(1,2)
proof (induction fuel arbitrary: dtg s steps)
  case 0
  then show ?case by simp
next
  case (Suc fuel)
  from Suc.prems(1) obtain d s1 where b: "body dtg s = Some (Inr (d, s1))"
    by (auto split: option.splits sum.splits)
  have P1: "P s1" using assms(3) [OF Suc.prems(2) b] .
  show ?case
  proof (cases "dtg - d > tol")
    case True
    with Suc.prems(1) b obtain st where "do_while_dtg tol body fuel (dtg - d) s1 = Some (Inr (s', st))"
      by (auto simp: Let_def split: option.splits sum.splits)
    from Suc.IH [OF this P1] show ?thesis .
  next
    case False
    with Suc.prems(1) b have "s' = s1" by (simp add: Let_def)
    with P1 show ?thesis by simp
  qed
qed

text \<open>
  Claim C8. With \<open>noDepoFlag\<close> set and positive Voronoi areas on the active nodes, one
  pass of the loop body of \<open>Diffuse\<close>, from any state of the mesh's nodes, leaves the
  accumulated influx \<open>Qsin\<close> of every active node at most zero and raises no node's
  elevation, whatever the slopes of the edges (\<open>cs\<close> is any slope function); and so
  no elevation is higher after a whole call than before it.
\<close>

theorem Diffuse_noDepo_never_raises:
  assumes flag: "noDepoFlag \<noteq> 0"
    and area: "\<forall>j < length (getNodeList mesh). j < getActiveSize mesh \<longrightarrow>
                 0 < getVArea (getNodeList mesh ! j)"
  shows "(\<forall>dtmax ns j. length ns = length (getNodeList mesh) \<and> map getVArea ns = map getVArea (getNodeList mesh)
             \<and> j < length ns \<longrightarrow>
            getZ (Diffuse_substep kd cs noDepoFlag mesh dtmax ns ! j) \<le> getZ (ns ! j)
          \<and> (j < getActiveSize mesh \<longrightarrow>
               getQsin (Diffuse_substep kd cs noDepoFlag mesh dtmax ns ! j) \<le> 0))
       \<and> (\<forall>fuel rt d ns' steps j.
            Diffuse kd cs mesh fuel rt noDepoFlag = Some (Inr ((d, ns'), steps))
          \<and> j < length (getNodeList mesh) \<longrightarrow>
            getZ (ns' ! j) \<le> getZ (getNodeList mesh ! j))"
proof (intro conjI allI impI)
  fix dtmax and ns :: "tLNode list" and j
  assume a: "length ns = length (getNodeList mesh) \<and> map getVArea ns = map getVArea (getNodeList mesh)
             \<and> j < length ns"
  then have "getVArea (ns ! j) = getVArea (getNodeList mesh ! j)"
    using nth_of_map_eq [where f = getVArea and xs = ns and ys = "getNodeList mesh" and j = j]
    by simp
  with a area have p: "0 < getVArea (ns ! j) \<or> \<not> j < getActiveSize mesh" by auto
  from a have j: "j < length ns" by simp
  show "getZ (Diffuse_substep kd cs noDepoFlag mesh dtmax ns ! j) \<le> getZ (ns ! j)"
    using Diffuse_substep_node(2) [OF j flag p] .
  show "getQsin (Diffuse_substep kd cs noDepoFlag mesh dtmax ns ! j) \<le> 0"
    if "j < getActiveSize mesh"
    using Diffuse_substep_node(3) [OF j flag that] .
next
  fix fuel rt d ns' steps j
  assume a: "Diffuse kd cs mesh fuel rt noDepoFlag = Some (Inr ((d, ns'), steps))
          \<and> j < length (getNodeList mesh)"
  let ?ns0 = "getNodeList mesh"
  let ?P = "\<lambda>s. length (snd s) = length ?ns0
              \<and> (\<forall>j < length ?ns0. getVArea (snd s ! j) = getVArea (?ns0 ! j)
                                     \<and> getZ (snd s ! j) \<le> getZ (?ns0 ! j))"
  have step: "?P s'" if P: "?P s" and b: "Diffuse_body kd cs noDepoFlag mesh t s = Some (Inr (x, s'))"
    for t s x s'
  proof -
    from b have s': "snd s' = Diffuse_substep kd cs noDepoFlag mesh (fst s) (snd s)"
      by (auto simp: Diffuse_body_def Let_def)
    have "getVArea (snd s' ! i) = getVArea (?ns0 ! i) \<and> getZ (snd s' ! i) \<le> getZ (?ns0 ! i)"
      if i: "i < length ?ns0" for i
    proof -
      from i P have i': "i < length (snd s)" by simp
      from P i have v: "getVArea (snd s ! i) = getVArea (?ns0 ! i)"
        and z: "getZ (snd s ! i) \<le> getZ (?ns0 ! i)" by simp_all
      from v area i have p: "0 < getVArea (snd s ! i) \<or> \<not> i < getActiveSize mesh" by auto
      have "getVArea (snd s' ! i) = getVArea (snd s ! i)"
        unfolding s' by (rule Diffuse_substep_node(1) [OF i'])
      moreover have "getZ (snd s' ! i) \<le> getZ (snd s ! i)"
        unfolding s' by (rule Diffuse_substep_node(2) [OF i' flag p])
      ultimately show ?thesis using v z by simp
    qed
    with P show ?thesis by (simp add: s')
  qed
  from a have run: "do_while_dtg 0 (Diffuse_body kd cs noDepoFlag mesh) fuel rt
      (Diffuse_dtmax kd rt (take (getActiveEdgeSize mesh) (getEdgeList mesh)), ?ns0)
        = Some (Inr ((d, ns'), steps))"
    by (simp add: Diffuse_def Let_def)
  have "?P (d, ns')"
    by (rule do_while_dtg_state [where P = ?P, OF run]) (simp, rule step)
  with a show "getZ (ns' ! j) \<le> getZ (getNodeList mesh ! j)" by simp
qed

lemma Diffuse_ex:
  "Diffuse 1 CalcSlope_ex mesh2_ex (Suc 0) 1 1
     = Some (Inr ((0, [node_ex\<lparr>getZ := 9, getQsin := - 1\<rparr>,
                        node_ex\<lparr>getZ := 0, getDownstrmNbr := 1\<rparr>]), [1]))"
  by (simp add: Diffuse_def Diffuse_body_def Diffuse_substep_def Diffuse_dtmax_def
        Diffuse_edge_def mesh2_ex_def node_ex_def CalcSlope_ex_def for_active_def Let_def
        kVerySmall_def kEpsOver2_def setQsin_def addQsin_def EroDep_dz_def upt_0_2)


theorem Diffuse_noDepo_never_raises_witness:
  "Diffuse 1 CalcSlope_ex mesh2_ex (Suc 0) 1 1
     = Some (Inr ((0, [node_ex\<lparr>getZ := 9, getQsin := - 1\<rparr>,
                        node_ex\<lparr>getZ := 0, getDownstrmNbr := 1\<rparr>]), [1]))
   \<and> getZ ([node_ex\<lparr>getZ := 9, getQsin := - 1\<rparr>,
              node_ex\<lparr>getZ := 0, getDownstrmNbr := 1\<rparr>] ! 0) \<le> getZ (getNodeList mesh2_ex ! 0)
   \<and> getZ ([node_ex\<lparr>getZ := 9, getQsin := - 1\<rparr>,
              node_ex\<lparr>getZ := 0, getDownstrmNbr := 1\<rparr>] ! 1) \<le> getZ (getNodeList mesh2_ex ! 1)"
proof -
  have flag: "(1::int) \<noteq> 0" by simp
  have area: "\<forall>j < length (getNodeList mesh2_ex). j < getActiveSize mesh2_ex \<longrightarrow>
                 0 < getVArea (getNodeList mesh2_ex ! j)"
    by (auto simp: mesh2_ex_def node_ex_def less_Suc_eq numeral_2_eq_2)
  have len: "0 < length (getNodeList mesh2_ex)" "1 < length (getNodeList mesh2_ex)"
    by (simp_all add: mesh2_ex_def)
  from Diffuse_noDepo_never_raises [OF flag area, of 1 CalcSlope_ex] Diffuse_ex len
  show ?thesis by blast
qed

subsection \<open>The unified detachment and transport integrator\<close>

text \<open>
  Claim C7. If the rain rate minus the infiltration is not strictly positive,
  \<open>DetachErode\<close> takes no sub-step and returns the nodes as they were (elevations,
  layers and fluxes), without error, whatever the fuel: nothing is computed.
\<close>

theorem DetachErode_no_runoff:
  assumes "\<not> getRainRate strmNet - getInfilt strmNet > 0"
  shows "DetachErode bedErode tc erodep mesh fuel dtg strmNet time
           = Some (Inr (getNodeList mesh, []))"
  using assms by (simp add: DetachErode_def)

theorem DetachErode_no_runoff_witness:
  "\<not> getRainRate (strm_ex 1) - getInfilt (strm_ex 1) > 0
   \<and> DetachErode bed_ex (tSedTransPwrLaw_TransCapacity_lyr pwr_ex) EroDep_lyr mesh2_ex 0 100
        (strm_ex 1) 0 = Some (Inr (getNodeList mesh2_ex, []))"
proof -
  have h: "\<not> getRainRate (strm_ex 1) - getInfilt (strm_ex 1) > 0"
    by (simp add: strm_ex_def)
  from h DetachErode_no_runoff [OF h] show ?thesis by simp
qed

lemma replicate_2: "replicate 2 x = [x, x]"
  by (simp add: numeral_2_eq_2)




lemma sum_list_nth_upt: "sum_list (map (\<lambda>j. xs ! j) [0 ..< length xs]) = sum_list xs"
  by (simp add: map_nth)



























text \<open>
  Where the top layer is thinner than the depth asked for, the walk takes it whole; the
  layer operation consumes it, and the walk takes the rest from the layer that is now on
  top. Here the node is asked for \<open>DrDt * dtmax = -1\<close> over half a unit of sediment: it
  ends on the bedrock layer, one unit lower, and has sent 2 of each size downstream.
\<close>

lemma detachlim_walk_ex:
  "map_option (map_sum id (\<lambda>ns. (getZ (ns ! 0), layers (ns ! 0), getQsinm (ns ! 1))))
     (DetachErode_apply EroDep_lyr (Suc (Suc (Suc 0))) (1 / 4) 7 0 nodes_walk_ex)
   = Some (Inr (9, [\<lparr>getDepth = 19 / 2, getErody = 3, getSed = 0, getDgrade = [19 / 4, 19 / 4],
                      getRtime = 7\<rparr>], [2, 2]))"
  by (simp add: DetachErode_apply_def DetachErode_dz_def nodes_walk_ex_def node_ex_def Let_def
        upt_0_2 addQsini_def setQsini_def setQsi_def erolist_supply_def erolist_deplete_def
        EroDep_lyr_def DetachErode_send_def getNumLayer_def getLayerDepth_def getLayerDgrade_def
        replicate_2)

subsection \<open>Sub-steps and the global time increment\<close>













































lemma map_option_fuel:
  "map_option g m = Some r \<Longrightarrow> (\<And>x. m = Some x \<Longrightarrow> m' = Some x) \<Longrightarrow> map_option g m' = Some r"
  by (cases m) auto


















end
